theory Spec2Isabelle
  imports Main
begin

section \<open>The authentication backend (auth_backend.py)\<close>

text \<open>
  A shallow embedding of the in-memory credential store and of the route handlers built
  on it. The store is a record of dictionaries (maps), every method takes the store and
  returns the updated one, and every raise is a value of the type \<open>error\<close>. An exception
  does not roll back what was written before it, so a handler returns its result together
  with the store it leaves behind.

  Clock and randomness are inputs: a method that calls \<open>datetime.now\<close> takes the reading
  \<open>now\<close> (microseconds, as \<open>int\<close>); a handler is modelled at one reading. The values
  drawn from \<open>secrets\<close> and the salt of bcrypt are arguments as well.

  The password hasher (passlib), the JWT codec (python-jose), the validation of an
  \<open>EmailStr\<close> (pydantic) and Python's \<open>str.lower\<close> are outside the repository. They are the
  fields of the record \<open>env\<close>, and every definition that calls them takes the \<open>env\<close>. The
  hasher raises \<open>ValueError\<close> on some passwords (a NUL character, an over-long string), so
  its two functions return an option.
\<close>

subsection \<open>Time\<close>

type_synonym timestamp = int

definition minutes :: "int \<Rightarrow> int" where
  "minutes n = n * 60000000"

definition hours :: "int \<Rightarrow> int" where
  "hours n = n * 3600000000"

definition days :: "int \<Rightarrow> int" where
  "days n = n * 86400000000"

text \<open>\<open>timedelta.seconds\<close>: the seconds field of the normalised difference, 0..86399.\<close>

definition seconds :: "int \<Rightarrow> int" where
  "seconds d = (d div 1000000) mod 86400"

subsection \<open>Settings\<close>

definition ACCESS_TOKEN_EXPIRE_MINUTES :: int where
  "ACCESS_TOKEN_EXPIRE_MINUTES = 30"

definition REFRESH_TOKEN_EXPIRE_DAYS :: int where
  "REFRESH_TOKEN_EXPIRE_DAYS = 7"

definition MAX_LOGIN_ATTEMPTS :: int where
  "MAX_LOGIN_ATTEMPTS = 5"

definition LOGIN_TIMEOUT_MINUTES :: int where
  "LOGIN_TIMEOUT_MINUTES = 15"

subsection \<open>Models\<close>

datatype TokenType = ACCESS | REFRESH

fun token_type_value :: "TokenType \<Rightarrow> string" where
  "token_type_value ACCESS = ''access''"
| "token_type_value REFRESH = ''refresh''"

datatype UserRole = ADMIN | USER | PREMIUM

text \<open>\<open>UserInDB\<close>; the field \<open>id\<close> is \<open>id_u\<close> here.\<close>

record user =
  id_u :: string
  email :: string
  username :: string
  full_name :: "string option"
  hashed_password :: string
  role :: UserRole
  is_active :: bool
  created_at :: timestamp
  updated_at :: timestamp
  last_login :: "timestamp option"
  failed_login_attempts :: int
  locked_until :: "timestamp option"

text \<open>\<open>UserCreate\<close>, after validation (the username validator has lower-cased it).\<close>

datatype UserCreate = UserCreate
  (uc_email: string) (uc_username: string) (uc_full_name: "string option") (uc_password: string)

text \<open>\<open>UserResponse\<close>: id, email, username, full_name, role, is_active, created_at,
  last_login.\<close>

datatype UserResponse = UserResponse
  string string string "string option" UserRole bool timestamp "timestamp option"

definition user_response :: "user \<Rightarrow> UserResponse" where
  "user_response u = UserResponse (id_u u) (email u) (username u) (full_name u) (role u)
     (is_active u) (created_at u) (last_login u)"

text \<open>The dictionaries stored per refresh token and per reset token have the same keys:
  \<open>user_id\<close>, \<open>expires_at\<close>, \<open>created_at\<close> (here \<open>issued_at\<close>).\<close>

record token_data =
  user_id :: string
  expires_at :: timestamp
  issued_at :: timestamp

text \<open>The claims of a JWT as the handlers read them with \<open>payload.get\<close>. \<open>jwt.encode\<close>
  writes \<open>exp\<close> and \<open>iat\<close> as whole seconds.\<close>

record payload =
  claim_user_id :: "string option"
  claim_username :: "string option"
  claim_type :: "string option"
  claim_exp :: timestamp
  claim_iat :: timestamp

text \<open>The external collaborators: \<open>pwd_context.hash\<close> (with its salt) and
  \<open>pwd_context.verify\<close>, \<open>None\<close> standing for the \<open>ValueError\<close> they raise on a password they
  do not accept; \<open>jwt.encode\<close> and \<open>jwt.decode\<close> (which checks signature and expiry against
  the clock, \<open>None\<close> standing for \<open>JWTError\<close>); \<open>str.lower\<close>, which is Unicode-aware; and the
  validation of an \<open>EmailStr\<close> field, which returns the normalised address (the domain in
  lower case) or fails (\<open>None\<close>).\<close>

record env =
  pwd_hash :: "string \<Rightarrow> string \<Rightarrow> string option"
  pwd_verify :: "string \<Rightarrow> string \<Rightarrow> bool option"
  jwt_encode :: "payload \<Rightarrow> string"
  jwt_decode :: "timestamp \<Rightarrow> string \<Rightarrow> payload option"
  str_lower :: "string \<Rightarrow> string"
  email_str :: "string \<Rightarrow> string option"

subsection \<open>Errors and responses\<close>

datatype detail =
    Could_not_validate_credentials
  | Token_has_been_revoked
  | Invalid_token
  | User_not_found
  | Inactive_user
  | Not_enough_permissions
  | Incorrect_email_username_or_password
  | Account_locked int
  | Invalid_token_type
  | Invalid_refresh_token
  | User_not_found_or_inactive
  | Incorrect_current_password
  | Invalid_or_expired_reset_token
  | Failed_to_delete_account
  | Cannot_deactivate_your_own_account
  | Email_already_registered
  | Username_already_taken
  | Password_not_accepted_by_hasher

text \<open>\<open>HTTPException status_code detail\<close>; \<open>ValueError\<close> as \<open>create_user\<close> and the hasher raise
  it; \<open>RequestValidationError\<close> for a request body that fails validation;
  \<open>AttributeError\<close> for an attribute read on \<open>None\<close>, which no handler catches.\<close>

datatype error =
    HTTPException nat detail
  | ValueError detail
  | RequestValidationError
  | AttributeError
  | TypeError

text \<open>The status of the response for an exception that leaves a route:
  \<open>http_exception_handler\<close>, \<open>value_error_handler\<close>, and the framework's answers to a
  validation error (422) and to any other exception (500).\<close>

fun status_code :: "error \<Rightarrow> nat" where
  "status_code (HTTPException c d) = c"
| "status_code (ValueError d) = 400"
| "status_code RequestValidationError = 422"
| "status_code AttributeError = 500"
| "status_code TypeError = 500"

text \<open>\<open>Token\<close>: access_token, refresh_token, token_type, expires_in, user.\<close>

datatype Token = Token string string string int UserResponse

text \<open>A JSON object is the list of its members, in order. The contents of the statistics
  and of the user listing are not modelled.\<close>

datatype response =
    User_body UserResponse
  | Token_body Token
  | Json "(string \<times> string) list"
  | Stats_body
  | Users_body

definition shape :: "response \<Rightarrow> string list" where
  "shape r = (case r of Json kvs \<Rightarrow> map fst kvs | User_body _ \<Rightarrow> [''user'']
     | Token_body _ \<Rightarrow> [''token''] | Stats_body \<Rightarrow> [''stats''] | Users_body \<Rightarrow> [''users''])"

subsection \<open>Security\<close>

definition verify_password :: "env \<Rightarrow> string \<Rightarrow> string \<Rightarrow> error + bool" where
  "verify_password E plain_password hashed =
     (case pwd_verify E plain_password hashed of
        None \<Rightarrow> Inl (ValueError Password_not_accepted_by_hasher)
      | Some b \<Rightarrow> Inr b)"

definition get_password_hash :: "env \<Rightarrow> string \<Rightarrow> string \<Rightarrow> error + string" where
  "get_password_hash E salt password =
     (case pwd_hash E salt password of
        None \<Rightarrow> Inl (ValueError Password_not_accepted_by_hasher)
      | Some h \<Rightarrow> Inr h)"

text \<open>\<open>create_token\<close> as the handlers call it: \<open>data\<close> holds \<open>user_id\<close> and \<open>username\<close>,
  and \<open>expires_delta\<close> is always given. The two time claims reach the token as whole
  seconds.\<close>

definition create_token :: "env \<Rightarrow> timestamp \<Rightarrow> string \<Rightarrow> string \<Rightarrow> TokenType \<Rightarrow> int \<Rightarrow> string" where
  "create_token E now uid uname token_type expires_delta =
     jwt_encode E \<lparr>claim_user_id = Some uid, claim_username = Some uname,
       claim_type = Some (token_type_value token_type),
       claim_exp = (now + expires_delta) div 1000000, claim_iat = now div 1000000\<rparr>"

definition decode_token :: "env \<Rightarrow> timestamp \<Rightarrow> string \<Rightarrow> error + payload" where
  "decode_token E now token =
     (case jwt_decode E now token of
        None \<Rightarrow> Inl (HTTPException 401 Could_not_validate_credentials)
      | Some p \<Rightarrow> Inr p)"

subsection \<open>InMemoryUserStore\<close>

record store =
  users :: "string \<rightharpoonup> user"
  email_index :: "string \<rightharpoonup> string"
  username_index :: "string \<rightharpoonup> string"
  refresh_tokens :: "string \<rightharpoonup> token_data"
  blacklisted_tokens :: "string set"
  password_reset_tokens :: "string \<rightharpoonup> token_data"

text \<open>\<open>__init__\<close> with \<open>_init_admin_user\<close>; it raises when the hasher does.\<close>

definition init_store :: "env \<Rightarrow> timestamp \<Rightarrow> string \<Rightarrow> error + store" where
  "init_store E now salt =
     (case get_password_hash E salt ''Admin123!'' of
        Inl e \<Rightarrow> Inl e
      | Inr h \<Rightarrow>
          let admin_id = ''admin-001'';
              admin_user = \<lparr>id_u = admin_id, email = ''admin@aimini.games'',
                username = ''admin'', full_name = Some ''System Administrator'',
                hashed_password = h,
                role = ADMIN, is_active = True, created_at = now, updated_at = now,
                last_login = None, failed_login_attempts = 0, locked_until = None\<rparr>
          in Inr \<lparr>users = [admin_id \<mapsto> admin_user],
               email_index = [email admin_user \<mapsto> admin_id],
               username_index = [username admin_user \<mapsto> admin_id],
               refresh_tokens = Map.empty,
               blacklisted_tokens = {},
               password_reset_tokens = Map.empty\<rparr>)"

text \<open>\<open>create_user\<close>; \<open>rand\<close> is the value of \<open>secrets.token_hex(8)\<close>. The hasher is called
  while the user object is built, before anything is stored.\<close>

definition create_user :: "env \<Rightarrow> timestamp \<Rightarrow> string \<Rightarrow> string \<Rightarrow> store \<Rightarrow> UserCreate \<Rightarrow> (error + user) \<times> store" where
  "create_user E now rand salt s user_data =
     (if email_index s (uc_email user_data) \<noteq> None
        then (Inl (ValueError Email_already_registered), s)
      else if username_index s (str_lower E (uc_username user_data)) \<noteq> None
        then (Inl (ValueError Username_already_taken), s)
      else
        (case get_password_hash E salt (uc_password user_data) of
           Inl e \<Rightarrow> (Inl e, s)
         | Inr h \<Rightarrow>
             let uid = ''user-'' @ rand;
                 u = \<lparr>id_u = uid, email = uc_email user_data,
                   username = str_lower E (uc_username user_data),
                   full_name = uc_full_name user_data,
                   hashed_password = h,
                   role = USER, is_active = True, created_at = now, updated_at = now,
                   last_login = None, failed_login_attempts = 0, locked_until = None\<rparr>
             in (Inr u, s\<lparr>users := (users s)(uid \<mapsto> u),
                          email_index := (email_index s)(email u \<mapsto> uid),
                          username_index := (username_index s)(username u \<mapsto> uid)\<rparr>)))"

text \<open>
  A \<open>UserInDB\<close> object is mutable and lives in one slot of \<open>users\<close>. A lookup returns the
  key of that slot together with the object's contents; a handler that mutates the
  object writes the new contents back to the slot (\<open>put_user\<close>).
\<close>

definition put_user :: "store \<Rightarrow> string \<Rightarrow> user \<Rightarrow> store" where
  "put_user s slot u = s\<lparr>users := (users s)(slot \<mapsto> u)\<rparr>"

definition get_user_by_id :: "store \<Rightarrow> string \<Rightarrow> (string \<times> user) option" where
  "get_user_by_id s uid = (case users s uid of None \<Rightarrow> None | Some u \<Rightarrow> Some (uid, u))"

text \<open>\<open>self.users.get(user_id) if user_id else None\<close>: the empty id is falsy.\<close>

definition get_user_by_email :: "store \<Rightarrow> string \<Rightarrow> (string \<times> user) option" where
  "get_user_by_email s e =
     (case email_index s e of
        None \<Rightarrow> None
      | Some uid \<Rightarrow> if uid = [] then None else get_user_by_id s uid)"

definition get_user_by_username :: "env \<Rightarrow> store \<Rightarrow> string \<Rightarrow> (string \<times> user) option" where
  "get_user_by_username E s n =
     (case username_index s (str_lower E n) of
        None \<Rightarrow> None
      | Some uid \<Rightarrow> if uid = [] then None else get_user_by_id s uid)"

text \<open>The items of \<open>update_data\<close>, in iteration order. \<open>Set_other k\<close> is a key the object
  has no attribute for, which \<open>hasattr\<close> skips.\<close>

datatype assignment =
    Set_id string
  | Set_email string
  | Set_username string
  | Set_full_name "string option"
  | Set_hashed_password string
  | Set_role UserRole
  | Set_is_active bool
  | Set_created_at timestamp
  | Set_updated_at timestamp
  | Set_last_login "timestamp option"
  | Set_failed_login_attempts int
  | Set_locked_until "timestamp option"
  | Set_other string

fun setattr :: "user \<Rightarrow> assignment \<Rightarrow> user" where
  "setattr u (Set_id v) = u\<lparr>id_u := v\<rparr>"
| "setattr u (Set_email v) = u\<lparr>email := v\<rparr>"
| "setattr u (Set_username v) = u\<lparr>username := v\<rparr>"
| "setattr u (Set_full_name v) = u\<lparr>full_name := v\<rparr>"
| "setattr u (Set_hashed_password v) = u\<lparr>hashed_password := v\<rparr>"
| "setattr u (Set_role v) = u\<lparr>role := v\<rparr>"
| "setattr u (Set_is_active v) = u\<lparr>is_active := v\<rparr>"
| "setattr u (Set_created_at v) = u\<lparr>created_at := v\<rparr>"
| "setattr u (Set_updated_at v) = u\<lparr>updated_at := v\<rparr>"
| "setattr u (Set_last_login v) = u\<lparr>last_login := v\<rparr>"
| "setattr u (Set_failed_login_attempts v) = u\<lparr>failed_login_attempts := v\<rparr>"
| "setattr u (Set_locked_until v) = u\<lparr>locked_until := v\<rparr>"
| "setattr u (Set_other k) = u"

definition update_user :: "timestamp \<Rightarrow> store \<Rightarrow> string \<Rightarrow> assignment list \<Rightarrow> user option \<times> store" where
  "update_user now s uid update_data =
     (case users s uid of
        None \<Rightarrow> (None, s)
      | Some u \<Rightarrow>
          let u' = (foldl setattr u update_data)\<lparr>updated_at := now\<rparr>
          in (Some u', put_user s uid u'))"

definition store_refresh_token :: "timestamp \<Rightarrow> store \<Rightarrow> string \<Rightarrow> string \<Rightarrow> timestamp \<Rightarrow> store" where
  "store_refresh_token now s token uid expires =
     s\<lparr>refresh_tokens := (refresh_tokens s)(token \<mapsto>
         \<lparr>user_id = uid, expires_at = expires, issued_at = now\<rparr>)\<rparr>"

definition validate_refresh_token :: "timestamp \<Rightarrow> store \<Rightarrow> string \<Rightarrow> string option \<times> store" where
  "validate_refresh_token now s token =
     (if token \<in> blacklisted_tokens s then (None, s)
      else case refresh_tokens s token of
        None \<Rightarrow> (None, s)
      | Some td \<Rightarrow>
          if now > expires_at td
            then (None, s\<lparr>refresh_tokens := (refresh_tokens s)(token := None)\<rparr>)
          else (Some (user_id td), s))"

definition blacklist_token :: "store \<Rightarrow> string \<Rightarrow> store" where
  "blacklist_token s token = s\<lparr>blacklisted_tokens := insert token (blacklisted_tokens s)\<rparr>"

definition is_token_blacklisted :: "store \<Rightarrow> string \<Rightarrow> bool" where
  "is_token_blacklisted s token = (token \<in> blacklisted_tokens s)"

text \<open>\<open>tokens_to_remove\<close>: the ledger's tokens whose record names the user.\<close>

definition tokens_to_remove :: "store \<Rightarrow> string \<Rightarrow> string \<Rightarrow> bool" where
  "tokens_to_remove s uid token =
     (case refresh_tokens s token of None \<Rightarrow> False | Some td \<Rightarrow> user_id td = uid)"

definition cleanup_user_tokens :: "store \<Rightarrow> string \<Rightarrow> store" where
  "cleanup_user_tokens s uid =
     s\<lparr>refresh_tokens := (\<lambda>token. if tokens_to_remove s uid token then None
                                     else refresh_tokens s token),
       blacklisted_tokens := blacklisted_tokens s \<union> Collect (tokens_to_remove s uid)\<rparr>"

definition delete_user :: "store \<Rightarrow> string \<Rightarrow> bool \<times> store" where
  "delete_user s uid =
     (case users s uid of
        None \<Rightarrow> (False, s)
      | Some u \<Rightarrow>
          let s1 = s\<lparr>email_index := (email_index s)(email u := None)\<rparr>;
              s2 = s1\<lparr>username_index := (username_index s1)(username u := None)\<rparr>;
              s3 = s2\<lparr>users := (users s2)(uid := None)\<rparr>
          in (True, cleanup_user_tokens s3 uid))"

definition increment_failed_login :: "timestamp \<Rightarrow> user \<Rightarrow> user" where
  "increment_failed_login now u =
     (let u1 = u\<lparr>failed_login_attempts := failed_login_attempts u + 1\<rparr>
      in if failed_login_attempts u1 \<ge> MAX_LOGIN_ATTEMPTS
           then u1\<lparr>locked_until := Some (now + minutes LOGIN_TIMEOUT_MINUTES)\<rparr>
         else u1)"

definition reset_failed_login :: "user \<Rightarrow> user" where
  "reset_failed_login u = u\<lparr>failed_login_attempts := 0, locked_until := None\<rparr>"

text \<open>\<open>is_user_locked\<close> returns the answer and the object as it leaves it.\<close>

definition is_user_locked :: "timestamp \<Rightarrow> user \<Rightarrow> bool \<times> user" where
  "is_user_locked now u =
     (case locked_until u of
        None \<Rightarrow> (False, u)
      | Some t \<Rightarrow>
          if now < t then (True, u)
          else (False, u\<lparr>locked_until := None, failed_login_attempts := 0\<rparr>))"

text \<open>\<open>reset\<close> is the value of \<open>secrets.token_urlsafe(32)\<close>.\<close>

definition create_password_reset_token :: "timestamp \<Rightarrow> string \<Rightarrow> store \<Rightarrow> string \<Rightarrow> string \<times> store" where
  "create_password_reset_token now reset s uid =
     (reset, s\<lparr>password_reset_tokens := (password_reset_tokens s)(reset \<mapsto>
        \<lparr>user_id = uid, expires_at = now + hours 1, issued_at = now\<rparr>)\<rparr>)"

definition validate_reset_token :: "timestamp \<Rightarrow> store \<Rightarrow> string \<Rightarrow> string option \<times> store" where
  "validate_reset_token now s token =
     (case password_reset_tokens s token of
        None \<Rightarrow> (None, s)
      | Some td \<Rightarrow>
          if now > expires_at td
            then (None, s\<lparr>password_reset_tokens := (password_reset_tokens s)(token := None)\<rparr>)
          else (Some (user_id td), s))"

text \<open>\<open>get_stats\<close> checks every user's lock, which clears the expired ones; the counts it
  returns are not modelled.\<close>

definition get_stats :: "timestamp \<Rightarrow> store \<Rightarrow> store" where
  "get_stats now s = s\<lparr>users := (\<lambda>k. map_option (\<lambda>u. snd (is_user_locked now u)) (users s k))\<rparr>"

subsection \<open>Dependencies\<close>

definition get_current_user :: "env \<Rightarrow> timestamp \<Rightarrow> store \<Rightarrow> string \<Rightarrow> error + (string \<times> user)" where
  "get_current_user E now s token =
     (if is_token_blacklisted s token then Inl (HTTPException 401 Token_has_been_revoked)
      else case decode_token E now token of
        Inl e \<Rightarrow> Inl e
      | Inr p \<Rightarrow>
          (case claim_user_id p of
             None \<Rightarrow> Inl (HTTPException 401 Invalid_token)
           | Some uid \<Rightarrow>
               if claim_type p \<noteq> Some (token_type_value ACCESS)
                 then Inl (HTTPException 401 Invalid_token)
               else
                 (case get_user_by_id s uid of
                    None \<Rightarrow> Inl (HTTPException 404 User_not_found)
                  | Some (slot, u) \<Rightarrow>
                      if \<not> is_active u then Inl (HTTPException 403 Inactive_user)
                      else Inr (slot, u))))"

definition get_current_active_user :: "env \<Rightarrow> timestamp \<Rightarrow> store \<Rightarrow> string \<Rightarrow> error + (string \<times> user)" where
  "get_current_active_user E now s token =
     (case get_current_user E now s token of
        Inl e \<Rightarrow> Inl e
      | Inr (slot, u) \<Rightarrow>
          if \<not> is_active u then Inl (HTTPException 400 Inactive_user) else Inr (slot, u))"

definition get_admin_user :: "env \<Rightarrow> timestamp \<Rightarrow> store \<Rightarrow> string \<Rightarrow> error + (string \<times> user)" where
  "get_admin_user E now s token =
     (case get_current_user E now s token of
        Inl e \<Rightarrow> Inl e
      | Inr (slot, u) \<Rightarrow>
          if role u \<noteq> ADMIN then Inl (HTTPException 403 Not_enough_permissions)
          else Inr (slot, u))"

subsection \<open>Authentication routes\<close>

definition register :: "env \<Rightarrow> timestamp \<Rightarrow> string \<Rightarrow> string \<Rightarrow> store \<Rightarrow> UserCreate \<Rightarrow> (error + response) \<times> store" where
  "register E now rand salt s user_data =
     (case create_user E now rand salt s user_data of
        (Inl (ValueError d), s') \<Rightarrow> (Inl (HTTPException 400 d), s')
      | (Inl e, s') \<Rightarrow> (Inl e, s')
      | (Inr u, s') \<Rightarrow> (Inr (User_body (user_response u)), s'))"

text \<open>\<open>login\<close>: \<open>ident\<close> is \<open>form_data.username\<close>, a plain string. The lookup by username
  runs only when the lookup by email found nothing. A \<open>ValueError\<close> of the hasher is not
  caught in the route: it leaves through \<open>value_error_handler\<close>, after the lock check has
  done its work on the user.\<close>

definition find_user :: "env \<Rightarrow> store \<Rightarrow> string \<Rightarrow> (string \<times> user) option" where
  "find_user E s ident =
     (case get_user_by_email s ident of
        Some x \<Rightarrow> Some x
      | None \<Rightarrow> get_user_by_username E s ident)"

definition login :: "env \<Rightarrow> timestamp \<Rightarrow> store \<Rightarrow> string \<Rightarrow> string \<Rightarrow> (error + response) \<times> store" where
  "login E now s ident password =
     (case find_user E s ident of
        None \<Rightarrow> (Inl (HTTPException 401 Incorrect_email_username_or_password), s)
      | Some (slot, u) \<Rightarrow>
          (case is_user_locked now u of
             (True, u1) \<Rightarrow>
               (case locked_until u1 of
                  None \<Rightarrow> (Inl TypeError, s)
                | Some t \<Rightarrow>
                    (Inl (HTTPException 423 (Account_locked (seconds (t - now) div 60))), s))
           | (False, u1) \<Rightarrow>
               (case verify_password E password (hashed_password u1) of
                  Inl e \<Rightarrow> (Inl e, put_user s slot u1)
                | Inr False \<Rightarrow>
                    (Inl (HTTPException 401 Incorrect_email_username_or_password),
                     put_user s slot (increment_failed_login now u1))
                | Inr True \<Rightarrow>
                    let u2 = (reset_failed_login u1)\<lparr>last_login := Some now\<rparr>;
                        access_token = create_token E now (id_u u2) (username u2) ACCESS
                          (minutes ACCESS_TOKEN_EXPIRE_MINUTES);
                        refresh = create_token E now (id_u u2) (username u2) REFRESH
                          (days REFRESH_TOKEN_EXPIRE_DAYS);
                        s1 = store_refresh_token now (put_user s slot u2) refresh (id_u u2)
                          (now + days REFRESH_TOKEN_EXPIRE_DAYS)
                    in (Inr (Token_body (Token access_token refresh ''bearer''
                           (ACCESS_TOKEN_EXPIRE_MINUTES * 60) (user_response u2))), s1))))"

definition refresh_token :: "env \<Rightarrow> timestamp \<Rightarrow> store \<Rightarrow> string \<Rightarrow> (error + response) \<times> store" where
  "refresh_token E now s token =
     (case decode_token E now token of
        Inl e \<Rightarrow> (Inl e, s)
      | Inr p \<Rightarrow>
          if claim_type p \<noteq> Some (token_type_value REFRESH)
            then (Inl (HTTPException 401 Invalid_token_type), s)
          else
            (case validate_refresh_token now s token of
               (None, s1) \<Rightarrow> (Inl (HTTPException 401 Invalid_refresh_token), s1)
             | (Some uid, s1) \<Rightarrow>
                 if uid = [] then (Inl (HTTPException 401 Invalid_refresh_token), s1)
                 else
                   (case get_user_by_id s1 uid of
                      None \<Rightarrow> (Inl (HTTPException 401 User_not_found_or_inactive), s1)
                    | Some (slot, u) \<Rightarrow>
                        if \<not> is_active u
                          then (Inl (HTTPException 401 User_not_found_or_inactive), s1)
                        else
                          let access_token = create_token E now (id_u u) (username u) ACCESS
                                (minutes ACCESS_TOKEN_EXPIRE_MINUTES);
                              new_refresh_token = create_token E now (id_u u) (username u) REFRESH
                                (days REFRESH_TOKEN_EXPIRE_DAYS);
                              s2 = blacklist_token s1 token;
                              s3 = store_refresh_token now s2 new_refresh_token (id_u u)
                                (now + days REFRESH_TOKEN_EXPIRE_DAYS)
                          in (Inr (Token_body (Token access_token new_refresh_token ''bearer''
                                 (ACCESS_TOKEN_EXPIRE_MINUTES * 60) (user_response u))), s3))))"

definition logout :: "env \<Rightarrow> timestamp \<Rightarrow> store \<Rightarrow> string \<Rightarrow> (error + response) \<times> store" where
  "logout E now s token =
     (case get_current_user E now s token of
        Inl e \<Rightarrow> (Inl e, s)
      | Inr (slot, current_user) \<Rightarrow>
          let s1 = blacklist_token s token;
              s2 = cleanup_user_tokens s1 (id_u current_user)
          in (Inr (Json [(''message'', ''Successfully logged out'')]), s2))"

subsection \<open>User management routes\<close>

definition get_current_user_profile :: "env \<Rightarrow> timestamp \<Rightarrow> store \<Rightarrow> string \<Rightarrow> (error + response) \<times> store" where
  "get_current_user_profile E now s token =
     (case get_current_active_user E now s token of
        Inl e \<Rightarrow> (Inl e, s)
      | Inr (slot, current_user) \<Rightarrow> (Inr (User_body (user_response current_user)), s))"

definition update_profile :: "env \<Rightarrow> timestamp \<Rightarrow> store \<Rightarrow> string \<Rightarrow> string option \<Rightarrow> (error + response) \<times> store" where
  "update_profile E now s token fname =
     (case get_current_active_user E now s token of
        Inl e \<Rightarrow> (Inl e, s)
      | Inr (slot, current_user) \<Rightarrow>
          let update_data = (case fname of None \<Rightarrow> [] | Some n \<Rightarrow> [Set_full_name (Some n)]);
              s1 = (if update_data \<noteq> [] then snd (update_user now s (id_u current_user) update_data)
                    else s)
          in (Inr (Json [(''message'', ''Profile updated successfully'')]), s1))"

definition change_password :: "env \<Rightarrow> timestamp \<Rightarrow> string \<Rightarrow> store \<Rightarrow> string \<Rightarrow> string \<Rightarrow> string \<Rightarrow> (error + response) \<times> store" where
  "change_password E now salt s token current_password new_password =
     (case get_current_active_user E now s token of
        Inl e \<Rightarrow> (Inl e, s)
      | Inr (slot, current_user) \<Rightarrow>
          (case verify_password E current_password (hashed_password current_user) of
             Inl e \<Rightarrow> (Inl e, s)
           | Inr False \<Rightarrow> (Inl (HTTPException 400 Incorrect_current_password), s)
           | Inr True \<Rightarrow>
               (case get_password_hash E salt new_password of
                  Inl e \<Rightarrow> (Inl e, s)
                | Inr new_hashed_password \<Rightarrow>
                    let s1 = snd (update_user now s (id_u current_user)
                               [Set_hashed_password new_hashed_password]);
                        s2 = cleanup_user_tokens s1 (id_u current_user)
                    in (Inr (Json [(''message'',
                          ''Password updated successfully. Please login again.'')]), s2))))"

text \<open>\<open>request_password_reset\<close>: \<open>raw\<close> is the address as the request carries it. The body
  is a \<open>PasswordResetRequest\<close>, whose \<open>email\<close> is an \<open>EmailStr\<close>: the route runs on the
  normalised address, or not at all.\<close>

definition request_password_reset :: "env \<Rightarrow> timestamp \<Rightarrow> string \<Rightarrow> store \<Rightarrow> string \<Rightarrow> (error + response) \<times> store" where
  "request_password_reset E now reset s raw =
     (case email_str E raw of
        None \<Rightarrow> (Inl RequestValidationError, s)
      | Some e \<Rightarrow>
          (case get_user_by_email s e of
             Some (slot, u) \<Rightarrow>
               (case create_password_reset_token now reset s (id_u u) of
                  (reset_token, s1) \<Rightarrow>
                    (Inr (Json [(''message'', ''If the email exists, a reset link has been sent''),
                                (''reset_token'', reset_token)]), s1))
           | None \<Rightarrow>
               (Inr (Json [(''message'', ''If the email exists, a reset link has been sent'')]),
                s)))"

text \<open>\<open>reset_password\<close>: the hasher runs after the token has been validated and before
  anything is updated; the log line after the updates reads \<open>user.email\<close>, which raises
  \<open>AttributeError\<close> when the user is gone.\<close>

definition reset_password :: "env \<Rightarrow> timestamp \<Rightarrow> string \<Rightarrow> store \<Rightarrow> string \<Rightarrow> string \<Rightarrow> (error + response) \<times> store" where
  "reset_password E now salt s reset_token new_password =
     (case validate_reset_token now s reset_token of
        (None, s1) \<Rightarrow> (Inl (HTTPException 400 Invalid_or_expired_reset_token), s1)
      | (Some uid, s1) \<Rightarrow>
          if uid = [] then (Inl (HTTPException 400 Invalid_or_expired_reset_token), s1)
          else
            (case get_password_hash E salt new_password of
               Inl e \<Rightarrow> (Inl e, s1)
             | Inr new_hashed_password \<Rightarrow>
                 let s2 = snd (update_user now s1 uid
                            [Set_hashed_password new_hashed_password,
                             Set_failed_login_attempts 0,
                             Set_locked_until None]);
                     s3 = cleanup_user_tokens s2 uid;
                     s4 = s3\<lparr>password_reset_tokens :=
                            (password_reset_tokens s3)(reset_token := None)\<rparr>
                 in (case get_user_by_id s4 uid of
                       None \<Rightarrow> (Inl AttributeError, s4)
                     | Some _ \<Rightarrow>
                         (Inr (Json [(''message'', ''Password reset successfully'')]), s4))))"

definition delete_account :: "env \<Rightarrow> timestamp \<Rightarrow> store \<Rightarrow> string \<Rightarrow> (error + response) \<times> store" where
  "delete_account E now s token =
     (case get_current_active_user E now s token of
        Inl e \<Rightarrow> (Inl e, s)
      | Inr (slot, current_user) \<Rightarrow>
          let s1 = blacklist_token s token
          in (case delete_user s1 (id_u current_user) of
                (True, s2) \<Rightarrow> (Inr (Json [(''message'', ''Account deleted successfully'')]), s2)
              | (False, s2) \<Rightarrow> (Inl (HTTPException 500 Failed_to_delete_account), s2)))"

subsection \<open>Admin routes and health\<close>

definition health_check :: "timestamp \<Rightarrow> store \<Rightarrow> (error + response) \<times> store" where
  "health_check now s = (Inr Stats_body, get_stats now s)"

definition list_users :: "env \<Rightarrow> timestamp \<Rightarrow> store \<Rightarrow> string \<Rightarrow> (error + response) \<times> store" where
  "list_users E now s token =
     (case get_admin_user E now s token of
        Inl e \<Rightarrow> (Inl e, s)
      | Inr _ \<Rightarrow> (Inr Users_body, s))"

definition get_system_stats :: "env \<Rightarrow> timestamp \<Rightarrow> store \<Rightarrow> string \<Rightarrow> (error + response) \<times> store" where
  "get_system_stats E now s token =
     (case get_admin_user E now s token of
        Inl e \<Rightarrow> (Inl e, s)
      | Inr _ \<Rightarrow> (Inr Stats_body, get_stats now s))"

definition activate_user :: "env \<Rightarrow> timestamp \<Rightarrow> store \<Rightarrow> string \<Rightarrow> string \<Rightarrow> (error + response) \<times> store" where
  "activate_user E now s token uid =
     (case get_admin_user E now s token of
        Inl e \<Rightarrow> (Inl e, s)
      | Inr (slot, current_user) \<Rightarrow>
          (case get_user_by_id s uid of
             None \<Rightarrow> (Inl (HTTPException 404 User_not_found), s)
           | Some (slot', u) \<Rightarrow>
               (Inr (Json [(''message'', ''User activated successfully'')]),
                snd (update_user now s uid [Set_is_active True]))))"

definition deactivate_user :: "env \<Rightarrow> timestamp \<Rightarrow> store \<Rightarrow> string \<Rightarrow> string \<Rightarrow> (error + response) \<times> store" where
  "deactivate_user E now s token uid =
     (case get_admin_user E now s token of
        Inl e \<Rightarrow> (Inl e, s)
      | Inr (slot, current_user) \<Rightarrow>
          (case get_user_by_id s uid of
             None \<Rightarrow> (Inl (HTTPException 404 User_not_found), s)
           | Some (slot', u) \<Rightarrow>
               if id_u u = id_u current_user
                 then (Inl (HTTPException 400 Cannot_deactivate_your_own_account), s)
               else
                 let s1 = snd (update_user now s uid [Set_is_active False]);
                     s2 = cleanup_user_tokens s1 uid
                 in (Inr (Json [(''message'', ''User deactivated successfully'')]), s2)))"

subsection \<open>One call of any operation\<close>

text \<open>Every method of the store and every route handler, as a call with its arguments;
  \<open>exec\<close> runs one call and returns the store it leaves. The three methods that take a
  user object take the slot that holds it. The development route \<open>/dev/test-auth\<close> is
  registered only when the secret key equals a freshly drawn random value, and is left
  out.\<close>

datatype call =
    Create_user string string UserCreate
  | Update_user string "assignment list"
  | Delete_user string
  | Store_refresh_token string string timestamp
  | Validate_refresh_token string
  | Blacklist_token string
  | Cleanup_user_tokens string
  | Increment_failed_login string
  | Reset_failed_login string
  | Is_user_locked string
  | Create_password_reset_token string string
  | Validate_reset_token string
  | Get_stats
  | Register string string UserCreate
  | Login string string
  | Refresh_token string
  | Logout string
  | Get_current_user_profile string
  | Update_profile string "string option"
  | Change_password string string string string
  | Request_password_reset string string
  | Reset_password string string string
  | Delete_account string
  | Health_check
  | List_users string
  | Get_system_stats string
  | Activate_user string string
  | Deactivate_user string string

definition on_user :: "store \<Rightarrow> string \<Rightarrow> (user \<Rightarrow> user) \<Rightarrow> store" where
  "on_user s slot f = (case users s slot of None \<Rightarrow> s | Some u \<Rightarrow> put_user s slot (f u))"

fun exec :: "env \<Rightarrow> timestamp \<Rightarrow> call \<Rightarrow> store \<Rightarrow> store" where
  "exec E now (Create_user rand salt user_data) s = snd (create_user E now rand salt s user_data)"
| "exec E now (Update_user uid update_data) s = snd (update_user now s uid update_data)"
| "exec E now (Delete_user uid) s = snd (delete_user s uid)"
| "exec E now (Store_refresh_token token uid expires) s = store_refresh_token now s token uid expires"
| "exec E now (Validate_refresh_token token) s = snd (validate_refresh_token now s token)"
| "exec E now (Blacklist_token token) s = blacklist_token s token"
| "exec E now (Cleanup_user_tokens uid) s = cleanup_user_tokens s uid"
| "exec E now (Increment_failed_login slot) s = on_user s slot (increment_failed_login now)"
| "exec E now (Reset_failed_login slot) s = on_user s slot reset_failed_login"
| "exec E now (Is_user_locked slot) s = on_user s slot (\<lambda>u. snd (is_user_locked now u))"
| "exec E now (Create_password_reset_token reset uid) s = snd (create_password_reset_token now reset s uid)"
| "exec E now (Validate_reset_token token) s = snd (validate_reset_token now s token)"
| "exec E now Get_stats s = get_stats now s"
| "exec E now (Register rand salt user_data) s = snd (register E now rand salt s user_data)"
| "exec E now (Login ident password) s = snd (login E now s ident password)"
| "exec E now (Refresh_token token) s = snd (refresh_token E now s token)"
| "exec E now (Logout token) s = snd (logout E now s token)"
| "exec E now (Get_current_user_profile token) s = snd (get_current_user_profile E now s token)"
| "exec E now (Update_profile token fname) s = snd (update_profile E now s token fname)"
| "exec E now (Change_password salt token current_password new_password) s =
     snd (change_password E now salt s token current_password new_password)"
| "exec E now (Request_password_reset reset e) s = snd (request_password_reset E now reset s e)"
| "exec E now (Reset_password salt token new_password) s =
     snd (reset_password E now salt s token new_password)"
| "exec E now (Delete_account token) s = snd (delete_account E now s token)"
| "exec E now Health_check s = snd (health_check now s)"
| "exec E now (List_users token) s = snd (list_users E now s token)"
| "exec E now (Get_system_stats token) s = snd (get_system_stats E now s token)"
| "exec E now (Activate_user token uid) s = snd (activate_user E now s token uid)"
| "exec E now (Deactivate_user token uid) s = snd (deactivate_user E now s token uid)"

subsection \<open>Consistency of the indices\<close>

text \<open>No index entry dangles or names a user under another email or username, and every
  user is indexed under its email and its username.\<close>

definition indices_consistent :: "store \<Rightarrow> bool" where
  "indices_consistent s \<longleftrightarrow>
     (\<forall>e uid. email_index s e = Some uid \<longrightarrow> (\<exists>u. users s uid = Some u \<and> email u = e))
     \<and> (\<forall>n uid. username_index s n = Some uid \<longrightarrow> (\<exists>u. users s uid = Some u \<and> username u = n))
     \<and> (\<forall>uid u. users s uid = Some u \<longrightarrow>
           email_index s (email u) = Some uid \<and> username_index s (username u) = Some uid)"

text \<open>An assignment that leaves \<open>email\<close> and \<open>username\<close> alone.\<close>

fun index_neutral :: "assignment \<Rightarrow> bool" where
  "index_neutral (Set_email v) = False"
| "index_neutral (Set_username v) = False"
| "index_neutral a = True"

text \<open>The stores that \<open>create_user\<close>, \<open>update_user\<close> and \<open>delete_user\<close> lead to from start-up,
  when \<open>secrets.token_hex\<close> returns an id not in use and the patches leave \<open>email\<close> and
  \<open>username\<close> alone.\<close>

inductive directory_reachable :: "env \<Rightarrow> store \<Rightarrow> bool" for E :: env where
  directory_init: "init_store E now salt = Inr s \<Longrightarrow> directory_reachable E s"
| directory_create: "directory_reachable E s \<Longrightarrow> users s (''user-'' @ rand) = None \<Longrightarrow>
     directory_reachable E (snd (create_user E now rand salt s user_data))"
| directory_update: "directory_reachable E s \<Longrightarrow> list_all index_neutral update_data \<Longrightarrow>
     directory_reachable E (snd (update_user now s uid update_data))"
| directory_delete: "directory_reachable E s \<Longrightarrow>
     directory_reachable E (snd (delete_user s uid))"

subsection \<open>A sequence of login attempts\<close>

text \<open>\<open>attempts\<close> runs \<open>login\<close> once per entry (clock reading, identifier, password), each on
  the store the one before left, and returns the results in order and the last store.\<close>

fun attempts :: "env \<Rightarrow> store \<Rightarrow> (timestamp \<times> string \<times> string) list \<Rightarrow> (error + response) list \<times> store" where
  "attempts E s [] = ([], s)"
| "attempts E s ((now, ident, password) # rest) =
     (case login E now s ident password of
        (r, s1) \<Rightarrow> (case attempts E s1 rest of (rs, s2) \<Rightarrow> (r # rs, s2)))"

subsection \<open>A concrete environment and concrete stores\<close>

text \<open>\<open>str.lower\<close> on ASCII text: the letters A to Z are mapped, every other character is
  left as it is.\<close>

definition ascii_lower_char :: "char \<Rightarrow> char" where
  "ascii_lower_char c =
     (case map_of (zip ''ABCDEFGHIJKLMNOPQRSTUVWXYZ'' ''abcdefghijklmnopqrstuvwxyz'') c of
        None \<Rightarrow> c
      | Some d \<Rightarrow> d)"

definition ascii_lower :: "string \<Rightarrow> string" where
  "ascii_lower s = map ascii_lower_char s"

text \<open>A small environment for running the definitions on concrete inputs. The hasher
  refuses a password with a NUL character; the hash is salt, dollar sign, password. A
  token is its type, its subject and its issue time, the seconds in unary; the decoder
  knows the two tokens issued to the administrator in second 0. Lower-casing is the one
  for ASCII text. An address is valid when it has an at sign, and its normal form has
  the part from the at sign on in lower case.\<close>

definition test_env :: env where
  "test_env =
     \<lparr>pwd_hash = (\<lambda>salt pw. if CHR 0x00 \<in> set pw then None else Some (salt @ ''$'' @ pw)),
      pwd_verify = (\<lambda>pw h. if CHR 0x00 \<in> set pw then None
                            else Some (dropWhile (\<lambda>c. c \<noteq> CHR ''$'') h = CHR ''$'' # pw)),
      jwt_encode = (\<lambda>p. (case claim_type p of None \<Rightarrow> [] | Some ty \<Rightarrow> ty) @ ''.'' @
                         (case claim_user_id p of None \<Rightarrow> [] | Some uid \<Rightarrow> uid) @ ''.'' @
                         replicate (nat (claim_iat p)) CHR ''i''),
      jwt_decode = (\<lambda>now tok.
         if tok = ''refresh.admin-001.'' then
           Some \<lparr>claim_user_id = Some ''admin-001'', claim_username = Some ''admin'',
                 claim_type = Some ''refresh'', claim_exp = 604800, claim_iat = 0\<rparr>
         else if tok = ''access.admin-001.'' then
           Some \<lparr>claim_user_id = Some ''admin-001'', claim_username = Some ''admin'',
                 claim_type = Some ''access'', claim_exp = 1800, claim_iat = 0\<rparr>
         else None),
      str_lower = ascii_lower,
      email_str = (\<lambda>raw. if CHR ''@'' \<in> set raw
                          then Some (takeWhile (\<lambda>c. c \<noteq> CHR ''@'') raw @
                                     ascii_lower (dropWhile (\<lambda>c. c \<noteq> CHR ''@'') raw))
                          else None)\<rparr>"

text \<open>The administrator's record at start-up.\<close>

definition admin0 :: user where
  "admin0 = \<lparr>id_u = ''admin-001'', email = ''admin@aimini.games'', username = ''admin'',
            full_name = Some ''System Administrator'',
            hashed_password = ''salt$Admin123!'',
            role = ADMIN, is_active = True, created_at = 0, updated_at = 0,
            last_login = None, failed_login_attempts = 0, locked_until = None\<rparr>"

text \<open>The store after start-up at time 0, where the hasher was given the salt
  \<open>''salt''\<close>.\<close>

definition store0 :: store where
  "store0 =
     \<lparr>users = [''admin-001'' \<mapsto> admin0],
      email_index = [''admin@aimini.games'' \<mapsto> ''admin-001''],
      username_index = [''admin'' \<mapsto> ''admin-001''],
      refresh_tokens = Map.empty,
      blacklisted_tokens = {},
      password_reset_tokens = Map.empty\<rparr>"

text \<open>The administrator holds a refresh token that expires at time 100.\<close>

definition store_with_token :: store where
  "store_with_token = store_refresh_token 0 store0 ''tok'' ''admin-001'' 100"

text \<open>The same store after the token \<open>''tok''\<close> has been blacklisted.\<close>

definition store_revoked :: store where
  "store_revoked = blacklist_token store_with_token ''tok''"

text \<open>The administrator has logged in at time 0 with the right password.\<close>

definition store_logged_in :: store where
  "store_logged_in = snd (login test_env 0 store0 ''admin'' ''Admin123!'')"


text \<open>Five logins of the administrator with a wrong password, at times 1 to 5.\<close>

definition store_locked :: store where
  "store_locked = snd (attempts test_env store0
     [(1, ''admin'', ''wrong''), (2, ''admin'', ''wrong''), (3, ''admin'', ''wrong''),
      (4, ''admin'', ''wrong''), (5, ''admin'', ''wrong'')])"

text \<open>The administrator, holding the refresh token \<open>''tok''\<close>, has asked for a password
  reset at time 0 and was given the reset token \<open>''rtok''\<close>.\<close>

definition store_reset :: store where
  "store_reset =
     snd (request_password_reset test_env 0 ''rtok'' store_with_token ''admin@aimini.games'')"

text \<open>The administrator's email address has been patched through \<open>update_user\<close>.\<close>

definition store_patched :: store where
  "store_patched = snd (update_user 1 store0 ''admin-001'' [Set_email ''root@aimini.games''])"

text \<open>A user has been created after start-up.\<close>

definition store_created :: store where
  "store_created = snd (create_user test_env 1 ''00ff'' ''salt'' store0
     (UserCreate ''a@x.com'' ''alice'' None ''Passw0rd''))"

text \<open>Five logins of the administrator with a password that holds a NUL character, at
  times 1 to 5.\<close>

definition store_nul :: store where
  "store_nul = snd (attempts test_env store0
     [(1, ''admin'', [CHR 0x00]), (2, ''admin'', [CHR 0x00]), (3, ''admin'', [CHR 0x00]),
      (4, ''admin'', [CHR 0x00]), (5, ''admin'', [CHR 0x00])])"

subsection \<open>Reachability\<close>

text \<open>The stores that some sequence of calls, at any clock readings, leads to.\<close>

inductive reachable :: "env \<Rightarrow> store \<Rightarrow> store \<Rightarrow> bool" for E :: env and s :: store where
  reachable_refl: "reachable E s s"
| reachable_step: "reachable E s s' \<Longrightarrow> reachable E s (exec E now c s')"

section \<open>Properties\<close>

subsection \<open>The blacklist only grows\<close>

lemma bl_put_user [simp]: "blacklisted_tokens (put_user s r u) = blacklisted_tokens s"
  by (simp add: put_user_def)

lemma bl_update_user [simp]:
  "blacklisted_tokens (snd (update_user now s uid d)) = blacklisted_tokens s"
  by (simp add: update_user_def Let_def split: option.splits)

lemma bl_store_refresh_token [simp]:
  "blacklisted_tokens (store_refresh_token now s t uid e) = blacklisted_tokens s"
  by (simp add: store_refresh_token_def)

lemma bl_validate_refresh_token [simp]:
  "blacklisted_tokens (snd (validate_refresh_token now s t)) = blacklisted_tokens s"
  by (simp add: validate_refresh_token_def split: option.splits)

lemma bl_blacklist_token [simp]:
  "blacklisted_tokens (blacklist_token s t) = insert t (blacklisted_tokens s)"
  by (simp add: blacklist_token_def)

lemma bl_cleanup_user_tokens [simp]:
  "blacklisted_tokens (cleanup_user_tokens s uid) =
     blacklisted_tokens s \<union> Collect (tokens_to_remove s uid)"
  by (simp add: cleanup_user_tokens_def)

lemma bl_delete_user: "blacklisted_tokens s \<subseteq> blacklisted_tokens (snd (delete_user s uid))"
  by (auto simp add: delete_user_def Let_def split: option.splits)

lemma bl_create_user [simp]:
  "blacklisted_tokens (snd (create_user E now rand salt s d)) = blacklisted_tokens s"
  by (simp add: create_user_def Let_def split: sum.splits)

lemma bl_on_user [simp]: "blacklisted_tokens (on_user s r f) = blacklisted_tokens s"
  by (simp add: on_user_def split: option.splits)

lemma bl_create_password_reset_token [simp]:
  "blacklisted_tokens (snd (create_password_reset_token now r s uid)) = blacklisted_tokens s"
  by (simp add: create_password_reset_token_def)

lemma bl_validate_reset_token [simp]:
  "blacklisted_tokens (snd (validate_reset_token now s t)) = blacklisted_tokens s"
  by (simp add: validate_reset_token_def split: option.splits)

lemma bl_get_stats [simp]: "blacklisted_tokens (get_stats now s) = blacklisted_tokens s"
  by (simp add: get_stats_def)

lemma bl_register [simp]:
  "blacklisted_tokens (snd (register E now rand salt s d)) = blacklisted_tokens s"
  by (simp add: register_def case_prod_beta split: sum.splits error.splits)

lemma bl_login [simp]: "blacklisted_tokens (snd (login E now s i p)) = blacklisted_tokens s"
  by (simp add: login_def Let_def split: option.splits prod.splits bool.splits sum.splits)

lemma bl_refresh_token:
  "blacklisted_tokens s \<subseteq> blacklisted_tokens (snd (refresh_token E now s t))"
  by (auto simp add: refresh_token_def Let_def case_prod_beta split: option.splits sum.splits)

lemma bl_logout: "blacklisted_tokens s \<subseteq> blacklisted_tokens (snd (logout E now s t))"
  by (auto simp add: logout_def Let_def split: option.splits prod.splits sum.splits)

lemma bl_get_current_user_profile [simp]:
  "blacklisted_tokens (snd (get_current_user_profile E now s t)) = blacklisted_tokens s"
  by (simp add: get_current_user_profile_def split: sum.splits prod.splits)

lemma bl_update_profile [simp]:
  "blacklisted_tokens (snd (update_profile E now s t f)) = blacklisted_tokens s"
  by (simp add: update_profile_def Let_def split: sum.splits prod.splits option.splits)

lemma bl_change_password:
  "blacklisted_tokens s \<subseteq> blacklisted_tokens (snd (change_password E now salt s t c n))"
  by (auto simp add: change_password_def Let_def split: sum.splits prod.splits bool.splits)

lemma bl_request_password_reset [simp]:
  "blacklisted_tokens (snd (request_password_reset E now r s e)) = blacklisted_tokens s"
  by (simp add: request_password_reset_def create_password_reset_token_def
      split: option.splits prod.splits)

lemma bl_reset_password:
  "blacklisted_tokens s \<subseteq> blacklisted_tokens (snd (reset_password E now salt s t n))"
  by (auto simp add: reset_password_def Let_def case_prod_beta split: option.splits sum.splits)

lemma bl_delete_account:
  "blacklisted_tokens s \<subseteq> blacklisted_tokens (snd (delete_account E now s t))"
  using bl_delete_user [of "blacklist_token s t"]
  by (auto simp add: delete_account_def Let_def case_prod_beta split: sum.splits bool.splits)

lemma bl_admin [simp]:
  "blacklisted_tokens (snd (health_check now s)) = blacklisted_tokens s"
  "blacklisted_tokens (snd (list_users E now s t)) = blacklisted_tokens s"
  "blacklisted_tokens (snd (get_system_stats E now s t)) = blacklisted_tokens s"
  "blacklisted_tokens (snd (activate_user E now s t uid)) = blacklisted_tokens s"
  by (simp_all add: health_check_def list_users_def get_system_stats_def activate_user_def
      split: sum.splits prod.splits option.splits)

lemma bl_deactivate_user:
  "blacklisted_tokens s \<subseteq> blacklisted_tokens (snd (deactivate_user E now s t uid))"
  by (auto simp add: deactivate_user_def Let_def split: sum.splits prod.splits option.splits)

lemma bl_exec: "blacklisted_tokens s \<subseteq> blacklisted_tokens (exec E now c s)"
  by (cases c) (simp_all add: bl_delete_user bl_refresh_token bl_logout bl_change_password
      bl_reset_password bl_delete_account bl_deactivate_user subset_insertI)

lemma delete_user_blacklists:
  "users s uid \<noteq> None \<Longrightarrow> tokens_to_remove s uid t \<Longrightarrow>
     t \<in> blacklisted_tokens (snd (delete_user s uid))"
  by (auto simp add: delete_user_def Let_def tokens_to_remove_def split: option.splits)

text \<open>
  C9. No call of a store method or of a route handler removes an entry from the
  blacklist: the blacklist after the call contains the blacklist before it. Revoking a
  user's tokens (\<open>cleanup_user_tokens\<close>) adds each of the user's refresh tokens to the
  blacklist, and so does deleting the user.
\<close>

theorem blacklist_never_shrinks:
  "blacklisted_tokens s \<subseteq> blacklisted_tokens (exec E now c s)
   \<and> (tokens_to_remove s uid t \<longrightarrow> t \<in> blacklisted_tokens (cleanup_user_tokens s uid))
   \<and> (users s uid \<noteq> None \<longrightarrow> tokens_to_remove s uid t \<longrightarrow>
        t \<in> blacklisted_tokens (snd (delete_user s uid)))"
  by (simp add: bl_exec delete_user_blacklists)

theorem blacklist_never_shrinks_witness:
  "users store_with_token ''admin-001'' \<noteq> None
   \<and> tokens_to_remove store_with_token ''admin-001'' ''tok''
   \<and> blacklisted_tokens store_with_token
        \<subseteq> blacklisted_tokens (exec test_env 5 (Delete_user ''admin-001'') store_with_token)
   \<and> ''tok'' \<in> blacklisted_tokens (cleanup_user_tokens store_with_token ''admin-001'')
   \<and> ''tok'' \<in> blacklisted_tokens (snd (delete_user store_with_token ''admin-001''))"
proof -
  have u: "users store_with_token ''admin-001'' \<noteq> None"
    by (simp add: store_with_token_def store0_def store_refresh_token_def)
  have r: "tokens_to_remove store_with_token ''admin-001'' ''tok''"
    by (simp add: store_with_token_def store_refresh_token_def tokens_to_remove_def)
  show ?thesis
    using u r blacklist_never_shrinks [of store_with_token test_env 5
        "Delete_user ''admin-001''" "''admin-001''" "''tok''"]
    by blast
qed

subsection \<open>Blacklisted tokens and the ledger\<close>

lemma reachable_blacklist: "reachable E s s' \<Longrightarrow> blacklisted_tokens s \<subseteq> blacklisted_tokens s'"
  by (induction rule: reachable.induct) (use bl_exec in blast)+

lemma validate_blacklisted: "t \<in> blacklisted_tokens s \<Longrightarrow> validate_refresh_token now s t = (None, s)"
  by (simp add: validate_refresh_token_def)

lemma cleanup_removes:
  "tokens_to_remove s uid t \<Longrightarrow> refresh_tokens (cleanup_user_tokens s uid) t = None"
  by (simp add: cleanup_user_tokens_def)

text \<open>
  C4. A token in the blacklist is never valid for the ledger, whether or not the ledger
  still holds an entry for it: in every store reached by any calls from a store that
  blacklists the token, \<open>validate_refresh_token\<close> returns nothing for it. Blacklisting a
  token marks it unusable from that call on (\<open>blacklist_token\<close> leaves the ledger entry
  where it is), and \<open>cleanup_user_tokens\<close> deletes the ledger entry and blacklists the
  token in one call.
\<close>

theorem blacklisted_token_never_valid:
  "(t \<in> blacklisted_tokens s \<longrightarrow> reachable E s s' \<longrightarrow>
      fst (validate_refresh_token now s' t) = None)
   \<and> (reachable E (blacklist_token s t) s' \<longrightarrow> fst (validate_refresh_token now s' t) = None)
   \<and> (tokens_to_remove s uid t \<longrightarrow>
        refresh_tokens (cleanup_user_tokens s uid) t = None
        \<and> t \<in> blacklisted_tokens (cleanup_user_tokens s uid))"
proof (intro conjI impI)
  assume "t \<in> blacklisted_tokens s" "reachable E s s'"
  then have "t \<in> blacklisted_tokens s'"
    using reachable_blacklist by blast
  then show "fst (validate_refresh_token now s' t) = None"
    by (simp add: validate_blacklisted)
next
  assume "reachable E (blacklist_token s t) s'"
  then have "t \<in> blacklisted_tokens s'"
    using reachable_blacklist [of E "blacklist_token s t" s'] by auto
  then show "fst (validate_refresh_token now s' t) = None"
    by (simp add: validate_blacklisted)
next
  assume "tokens_to_remove s uid t"
  then show "refresh_tokens (cleanup_user_tokens s uid) t = None"
    by (rule cleanup_removes)
next
  assume "tokens_to_remove s uid t"
  then show "t \<in> blacklisted_tokens (cleanup_user_tokens s uid)"
    by simp
qed

lemma store_with_token_ledger:
  "refresh_tokens store_with_token ''tok'' =
     Some \<lparr>user_id = ''admin-001'', expires_at = 100, issued_at = 0\<rparr>"
  by (simp add: store_with_token_def store_refresh_token_def)

lemma store_with_token_blacklist: "blacklisted_tokens store_with_token = {}"
  by (simp add: store_with_token_def store0_def store_refresh_token_def)

theorem blacklisted_token_never_valid_witness:
  "''tok'' \<in> blacklisted_tokens store_revoked
   \<and> reachable test_env store_revoked (exec test_env 7 (Login ''admin'' ''Admin123!'') store_revoked)
   \<and> fst (validate_refresh_token 8
        (exec test_env 7 (Login ''admin'' ''Admin123!'') store_revoked) ''tok'') = None
   \<and> tokens_to_remove store_with_token ''admin-001'' ''tok''
   \<and> refresh_tokens (cleanup_user_tokens store_with_token ''admin-001'') ''tok'' = None
   \<and> ''tok'' \<in> blacklisted_tokens (cleanup_user_tokens store_with_token ''admin-001'')"
proof -
  have b: "''tok'' \<in> blacklisted_tokens store_revoked"
    by (simp add: store_revoked_def)
  have r: "reachable test_env store_revoked
      (exec test_env 7 (Login ''admin'' ''Admin123!'') store_revoked)"
    by (rule reachable_step [OF reachable_refl])
  have c: "tokens_to_remove store_with_token ''admin-001'' ''tok''"
    by (simp add: tokens_to_remove_def store_with_token_ledger)
  show ?thesis
    using b r c
      blacklisted_token_never_valid [where t = "''tok''" and s = store_revoked and E = test_env
        and s' = "exec test_env 7 (Login ''admin'' ''Admin123!'') store_revoked" and now = 8]
      blacklisted_token_never_valid [where t = "''tok''" and s = store_with_token
        and uid = "''admin-001''"]
    by blast
qed

lemma blacklist_token_keeps_ledger:
  "refresh_tokens (blacklist_token s t) = refresh_tokens s"
  by (simp add: blacklist_token_def)

subsection \<open>Validating a refresh token\<close>

text \<open>
  C5, as amended. \<open>validate_refresh_token\<close> returns the owning user id exactly when the
  token is not blacklisted, is known to the ledger and is unexpired (the clock is not
  past \<open>expires_at\<close>); it returns nothing when the token is blacklisted, unknown or
  expired. An expired entry of a token that is not blacklisted is evicted from the
  ledger by the lookup; in every other case the store is left as it was.
\<close>

theorem validate_refresh_token_result:
  "(fst (validate_refresh_token now s t) = Some uid \<longleftrightarrow>
      t \<notin> blacklisted_tokens s
      \<and> (\<exists>td. refresh_tokens s t = Some td \<and> now \<le> expires_at td \<and> user_id td = uid))
   \<and> (fst (validate_refresh_token now s t) = None \<longleftrightarrow>
      t \<in> blacklisted_tokens s \<or> refresh_tokens s t = None
      \<or> (\<exists>td. refresh_tokens s t = Some td \<and> expires_at td < now))
   \<and> (t \<notin> blacklisted_tokens s \<longrightarrow> refresh_tokens s t = Some td \<longrightarrow> expires_at td < now \<longrightarrow>
        snd (validate_refresh_token now s t) = s\<lparr>refresh_tokens := (refresh_tokens s)(t := None)\<rparr>)
   \<and> (t \<in> blacklisted_tokens s \<or> refresh_tokens s t = None
        \<or> (\<exists>td. refresh_tokens s t = Some td \<and> now \<le> expires_at td) \<longrightarrow>
        snd (validate_refresh_token now s t) = s)"
  by (auto simp add: validate_refresh_token_def split: option.splits)

theorem validate_refresh_token_result_witness:
  "''tok'' \<notin> blacklisted_tokens store_with_token
   \<and> refresh_tokens store_with_token ''tok'' =
        Some \<lparr>user_id = ''admin-001'', expires_at = 100, issued_at = 0\<rparr>
   \<and> fst (validate_refresh_token 50 store_with_token ''tok'') = Some ''admin-001''
   \<and> snd (validate_refresh_token 50 store_with_token ''tok'') = store_with_token
   \<and> fst (validate_refresh_token 200 store_with_token ''tok'') = None
   \<and> snd (validate_refresh_token 200 store_with_token ''tok'') =
        store_with_token\<lparr>refresh_tokens := (refresh_tokens store_with_token)(''tok'' := None)\<rparr>"
  using store_with_token_ledger store_with_token_blacklist
    validate_refresh_token_result [of 50 store_with_token "''tok''" "''admin-001''"
      "\<lparr>user_id = ''admin-001'', expires_at = 100, issued_at = 0\<rparr>"]
    validate_refresh_token_result [of 200 store_with_token "''tok''" "''admin-001''"
      "\<lparr>user_id = ''admin-001'', expires_at = 100, issued_at = 0\<rparr>"]
  by simp

text \<open>
  The blacklist check returns first: the expired entry of a blacklisted token stays in
  the ledger when the token is looked up.
\<close>

theorem validate_refresh_token_no_eviction_counterexample:
  "refresh_tokens store_revoked ''tok'' =
     Some \<lparr>user_id = ''admin-001'', expires_at = 100, issued_at = 0\<rparr>
   \<and> (100 :: int) < 200
   \<and> fst (validate_refresh_token 200 store_revoked ''tok'') = None
   \<and> refresh_tokens (snd (validate_refresh_token 200 store_revoked ''tok'')) ''tok'' =
        Some \<lparr>user_id = ''admin-001'', expires_at = 100, issued_at = 0\<rparr>"
  by (simp add: store_revoked_def validate_refresh_token_def blacklist_token_keeps_ledger
      store_with_token_ledger)

subsection \<open>Rotation of refresh tokens\<close>


lemma init_store_test_env: "init_store test_env 0 ''salt'' = Inr store0"
  by (simp add: init_store_def store0_def admin0_def Let_def get_password_hash_def test_env_def)

lemma lower_admin: "str_lower test_env ''admin'' = ''admin''"
  by (simp add: test_env_def ascii_lower_def ascii_lower_char_def)

lemma store0_fields:
  "users store0 = [''admin-001'' \<mapsto> admin0]"
  "email_index store0 = [''admin@aimini.games'' \<mapsto> ''admin-001'']"
  "username_index store0 = [''admin'' \<mapsto> ''admin-001'']"
  "refresh_tokens store0 = Map.empty"
  "blacklisted_tokens store0 = {}"
  "password_reset_tokens store0 = Map.empty"
  by (simp_all add: store0_def)

lemma find_admin: "find_user test_env store0 ''admin'' = Some (''admin-001'', admin0)"
  by (simp add: find_user_def get_user_by_email_def get_user_by_username_def get_user_by_id_def
      store0_fields lower_admin)

lemma test_passwords:
  "verify_password test_env ''wrong'' (hashed_password admin0) = Inr False"
  "verify_password test_env ''Admin123!'' (hashed_password admin0) = Inr True"
  "verify_password test_env [CHR 0x00] (hashed_password admin0) =
     Inl (ValueError Password_not_accepted_by_hasher)"
  by (simp_all add: verify_password_def test_env_def admin0_def)

lemma admin0_start: "failed_login_attempts admin0 = 0" "locked_until admin0 = None"
  by (simp_all add: admin0_def)

lemma store_logged_in_eq:
  "store_logged_in = store0\<lparr>users := [''admin-001'' \<mapsto> admin0\<lparr>last_login := Some 0\<rparr>],
      refresh_tokens := [''refresh.admin-001.'' \<mapsto>
         \<lparr>user_id = ''admin-001'', expires_at = 604800000000, issued_at = 0\<rparr>]\<rparr>"
  by (simp add: store_logged_in_def login_def find_admin is_user_locked_def admin0_start
      test_passwords)
    (simp add: admin0_def create_token_def test_env_def minutes_def days_def
      ACCESS_TOKEN_EXPIRE_MINUTES_def REFRESH_TOKEN_EXPIRE_DAYS_def reset_failed_login_def
      store_refresh_token_def put_user_def Let_def store0_fields)



lemma refresh_token_success:
  assumes dec: "decode_token E now tok = Inr p"
    and ty: "claim_type p = Some ''refresh''"
    and val: "fst (validate_refresh_token now s tok) = Some uid"
    and uid: "uid \<noteq> []"
    and usr: "users s uid = Some u"
    and act: "is_active u"
  shows "refresh_token E now s tok =
     (Inr (Token_body (Token
        (create_token E now (id_u u) (username u) ACCESS (minutes ACCESS_TOKEN_EXPIRE_MINUTES))
        (create_token E now (id_u u) (username u) REFRESH (days REFRESH_TOKEN_EXPIRE_DAYS))
        ''bearer'' (ACCESS_TOKEN_EXPIRE_MINUTES * 60) (user_response u))),
      store_refresh_token now (blacklist_token s tok)
        (create_token E now (id_u u) (username u) REFRESH (days REFRESH_TOKEN_EXPIRE_DAYS))
        (id_u u) (now + days REFRESH_TOKEN_EXPIRE_DAYS))"
proof -
  from val have v: "validate_refresh_token now s tok = (Some uid, s)"
    by (auto simp add: validate_refresh_token_def split: if_splits option.splits)
  show ?thesis
    using dec ty uid usr act
    by (simp add: refresh_token_def v get_user_by_id_def Let_def)
qed


lemma decode_admin_refresh:
  "decode_token test_env now ''refresh.admin-001.'' =
     Inr \<lparr>claim_user_id = Some ''admin-001'', claim_username = Some ''admin'',
          claim_type = Some ''refresh'', claim_exp = 604800, claim_iat = 0\<rparr>"
  by (simp add: decode_token_def test_env_def)


lemma admin_tokens:
  "create_token test_env 0 ''admin-001'' ''admin'' ACCESS (minutes 30) = ''access.admin-001.''"
  "create_token test_env 0 ''admin-001'' ''admin'' REFRESH (days 7) = ''refresh.admin-001.''"
  "create_token test_env 1 ''admin-001'' ''admin'' REFRESH (days 7) = ''refresh.admin-001.''"
  "create_token test_env 1000000 ''admin-001'' ''admin'' ACCESS (minutes 30) =
     ''access.admin-001.i''"
  "create_token test_env 1000000 ''admin-001'' ''admin'' REFRESH (days 7) =
     ''refresh.admin-001.i''"
  by (simp_all add: create_token_def test_env_def)

lemma admin0_names: "id_u admin0 = ''admin-001''" "username admin0 = ''admin''"
  by (simp_all add: admin0_def)




text \<open>
  The token carries its issue and expiry times as whole seconds, so a refresh in the
  second in which the presented token was issued, for the same user, issues the very
  string that was presented: the token returned is the one just blacklisted, and the
  ledger refuses it.
\<close>

lemma create_token_same_second:
  "now div 1000000 = now0 div 1000000 \<Longrightarrow>
     create_token E now uid uname ty (days 7) = create_token E now0 uid uname ty (days 7)"
proof -
  assume a: "now div 1000000 = now0 div 1000000"
  have "(now + days 7) div 1000000 = now div 1000000 + 604800"
    "(now0 + days 7) div 1000000 = now0 div 1000000 + 604800"
    by (simp_all add: days_def)
  with a show ?thesis by (simp add: create_token_def)
qed

lemma refresh_in_the_same_second:
  assumes dec: "decode_token E now tok = Inr p"
    and ty: "claim_type p = Some ''refresh''"
    and val: "fst (validate_refresh_token now s tok) = Some uid"
    and uid: "uid \<noteq> []"
    and usr: "users s uid = Some u"
    and act: "is_active u"
    and issued: "tok = create_token E now0 (id_u u) (username u) REFRESH (days 7)"
    and same: "now div 1000000 = now0 div 1000000"
  shows "fst (refresh_token E now s tok) =
       Inr (Token_body (Token
         (create_token E now (id_u u) (username u) ACCESS (minutes 30))
         tok ''bearer'' 1800 (user_response u)))
     \<and> fst (validate_refresh_token t (snd (refresh_token E now s tok)) tok) = None"
proof -
  note r = refresh_token_success [OF dec ty val uid usr act]
  have n: "create_token E now (id_u u) (username u) REFRESH (days 7) = tok"
    using create_token_same_second [OF same] issued by simp
  have b: "tok \<in> blacklisted_tokens (snd (refresh_token E now s tok))"
    by (simp add: r)
  show ?thesis
    by (simp add: validate_blacklisted [OF b])
      (simp add: r REFRESH_TOKEN_EXPIRE_DAYS_def n ACCESS_TOKEN_EXPIRE_MINUTES_def)
qed

lemma refresh_in_the_same_second_example:
  "fst (refresh_token test_env 1 store_logged_in ''refresh.admin-001.'') =
     Inr (Token_body (Token ''access.admin-001.'' ''refresh.admin-001.'' ''bearer'' 1800
       (user_response (admin0\<lparr>last_login := Some 0\<rparr>))))
   \<and> fst (validate_refresh_token 2
        (snd (refresh_token test_env 1 store_logged_in ''refresh.admin-001.''))
        ''refresh.admin-001.'') = None"
proof -
  let ?u = "admin0\<lparr>last_login := Some 0\<rparr>"
  have val: "fst (validate_refresh_token 1 store_logged_in ''refresh.admin-001.'') =
      Some ''admin-001''"
    by (simp add: validate_refresh_token_def store_logged_in_eq store0_fields)
  have usr: "users store_logged_in ''admin-001'' = Some ?u"
    by (simp add: store_logged_in_eq)
  have issued: "''refresh.admin-001.'' =
      create_token test_env 0 (id_u ?u) (username ?u) REFRESH (days 7)"
    by (simp add: admin_tokens admin0_names)
  have acc: "create_token test_env 1 ''admin-001'' ''admin'' ACCESS (minutes 30) =
      ''access.admin-001.''"
    by (simp add: create_token_def test_env_def)
  have dec: "decode_token test_env 1 ''refresh.admin-001.'' =
      Inr \<lparr>claim_user_id = Some ''admin-001'', claim_username = Some ''admin'',
          claim_type = Some ''refresh'', claim_exp = 604800, claim_iat = 0\<rparr>"
    by (rule decode_admin_refresh)
  have act: "is_active ?u" by (simp add: admin0_def)
  have same: "(1::int) div 1000000 = 0 div 1000000" by simp
  show ?thesis
    using refresh_in_the_same_second [OF dec _ val _ usr act issued same, of 2]
    by (simp add: acc admin0_names)
qed

subsection \<open>Login and lockout\<close>

lemma find_user_users: "find_user E s ident = Some (slot, u) \<Longrightarrow> users s slot = Some u"
  by (auto simp add: find_user_def get_user_by_email_def get_user_by_username_def
      get_user_by_id_def split: option.splits if_splits)

lemma find_user_put_user:
  "find_user E s ident = Some (slot, u) \<Longrightarrow>
     find_user E (put_user s slot u') ident = Some (slot, u')"
  by (auto simp add: find_user_def get_user_by_email_def get_user_by_username_def
      get_user_by_id_def put_user_def split: option.splits if_splits)

lemma find_user_by_email:
  "email_index s ident = Some slot \<Longrightarrow> slot \<noteq> [] \<Longrightarrow> users s slot = Some u \<Longrightarrow>
     find_user E s ident = Some (slot, u)"
  by (simp add: find_user_def get_user_by_email_def get_user_by_id_def)

lemma find_user_by_username:
  "get_user_by_email s ident = None \<Longrightarrow> username_index s (str_lower E ident) = Some slot \<Longrightarrow>
     slot \<noteq> [] \<Longrightarrow> users s slot = Some u \<Longrightarrow> find_user E s ident = Some (slot, u)"
  by (simp add: find_user_def get_user_by_username_def get_user_by_id_def)

lemma find_user_unknown:
  "get_user_by_email s ident = None \<Longrightarrow> get_user_by_username E s ident = None \<Longrightarrow>
     find_user E s ident = None"
  by (simp add: find_user_def)

lemma put_user_put_user [simp]: "put_user (put_user s slot a) slot b = put_user s slot b"
  by (simp add: put_user_def)

lemma put_user_same: "users s slot = Some u \<Longrightarrow> put_user s slot u = s"
  by (simp add: put_user_def fun_upd_idem)

lemma is_user_locked_fst:
  "fst (is_user_locked now u) \<longleftrightarrow> (\<exists>t. locked_until u = Some t \<and> now < t)"
  by (auto simp add: is_user_locked_def split: option.splits)

lemma is_user_locked_snd:
  "snd (is_user_locked now u) =
     (case locked_until u of
        None \<Rightarrow> u
      | Some t \<Rightarrow> if now < t then u else u\<lparr>locked_until := None, failed_login_attempts := 0\<rparr>)"
  by (simp add: is_user_locked_def split: option.splits)

lemma login_unknown:
  "find_user E s ident = None \<Longrightarrow>
     login E now s ident pw = (Inl (HTTPException 401 Incorrect_email_username_or_password), s)"
  by (simp add: login_def)

lemma login_locked:
  "find_user E s ident = Some (slot, u) \<Longrightarrow> locked_until u = Some t \<Longrightarrow> now < t \<Longrightarrow>
     login E now s ident pw =
       (Inl (HTTPException 423 (Account_locked (seconds (t - now) div 60))), s)"
  by (simp add: login_def is_user_locked_def)

lemma login_hasher_raises:
  "find_user E s ident = Some (slot, u) \<Longrightarrow> \<not> fst (is_user_locked now u) \<Longrightarrow>
     verify_password E pw (hashed_password u) = Inl e \<Longrightarrow>
     login E now s ident pw = (Inl e, put_user s slot (snd (is_user_locked now u)))"
  by (auto simp add: login_def is_user_locked_def split: option.splits)

lemma login_wrong_password:
  "find_user E s ident = Some (slot, u) \<Longrightarrow> \<not> fst (is_user_locked now u) \<Longrightarrow>
     verify_password E pw (hashed_password u) = Inr False \<Longrightarrow>
     login E now s ident pw =
       (Inl (HTTPException 401 Incorrect_email_username_or_password),
        put_user s slot (increment_failed_login now (snd (is_user_locked now u))))"
  by (auto simp add: login_def is_user_locked_def split: option.splits)

lemma login_success:
  "find_user E s ident = Some (slot, u) \<Longrightarrow> \<not> fst (is_user_locked now u) \<Longrightarrow>
     verify_password E pw (hashed_password u) = Inr True \<Longrightarrow>
     login E now s ident pw =
       (Inr (Token_body (Token
          (create_token E now (id_u u) (username u) ACCESS (minutes 30))
          (create_token E now (id_u u) (username u) REFRESH (days 7))
          ''bearer'' 1800
          (user_response (u\<lparr>failed_login_attempts := 0, locked_until := None,
             last_login := Some now\<rparr>)))),
        (put_user s slot (u\<lparr>failed_login_attempts := 0, locked_until := None,
             last_login := Some now\<rparr>))
        \<lparr>refresh_tokens := (refresh_tokens s)
            (create_token E now (id_u u) (username u) REFRESH (days 7) \<mapsto>
              \<lparr>user_id = id_u u, expires_at = now + days 7, issued_at = now\<rparr>)\<rparr>)"
  by (auto simp add: login_def is_user_locked_def reset_failed_login_def Let_def
      store_refresh_token_def put_user_def ACCESS_TOKEN_EXPIRE_MINUTES_def
      REFRESH_TOKEN_EXPIRE_DAYS_def split: option.splits)

text \<open>
  The checks of \<open>login\<close> in their order, for a hasher that accepts the password. The
  identifier is looked up in the email index as it is and, when that finds no user, in
  the username index in lower case. When no user is found \<open>login\<close> fails with status 401
  and the detail of a wrong password, the same error value, and leaves the store as it
  is. When the user is locked it fails with status 423 and the remaining minutes of the
  lock, whatever the password. Otherwise it verifies the password: on a mismatch it
  records the failure on the user and fails with status 401; on a match it resets the
  failure counter and the lock, sets the last login, issues an access and a refresh
  token and records the refresh token in the ledger.
\<close>

lemma login_checks_in_order:
  assumes found: "(email_index s ident = Some slot \<and> slot \<noteq> [] \<and> users s slot = Some u)
      \<or> (get_user_by_email s ident = None \<and> username_index s (str_lower E ident) = Some slot
          \<and> slot \<noteq> [] \<and> users s slot = Some u)"
  shows "(locked_until u = Some t \<longrightarrow> now < t \<longrightarrow>
        login E now s ident pw =
          (Inl (HTTPException 423 (Account_locked (seconds (t - now) div 60))), s))
   \<and> (\<not> fst (is_user_locked now u) \<longrightarrow>
        verify_password E pw (hashed_password u) = Inr False \<longrightarrow>
        login E now s ident pw =
          (Inl (HTTPException 401 Incorrect_email_username_or_password),
           put_user s slot (increment_failed_login now (snd (is_user_locked now u)))))
   \<and> (\<not> fst (is_user_locked now u) \<longrightarrow>
        verify_password E pw (hashed_password u) = Inr True \<longrightarrow>
        login E now s ident pw =
          (Inr (Token_body (Token
             (create_token E now (id_u u) (username u) ACCESS (minutes 30))
             (create_token E now (id_u u) (username u) REFRESH (days 7))
             ''bearer'' 1800
             (user_response (u\<lparr>failed_login_attempts := 0, locked_until := None,
                last_login := Some now\<rparr>)))),
           (put_user s slot (u\<lparr>failed_login_attempts := 0, locked_until := None,
                last_login := Some now\<rparr>))
           \<lparr>refresh_tokens := (refresh_tokens s)
               (create_token E now (id_u u) (username u) REFRESH (days 7) \<mapsto>
                 \<lparr>user_id = id_u u, expires_at = now + days 7, issued_at = now\<rparr>)\<rparr>))
   \<and> (get_user_by_email s other = None \<longrightarrow> get_user_by_username E s other = None \<longrightarrow>
        login E now s other pw =
          (Inl (HTTPException 401 Incorrect_email_username_or_password), s))"
proof -
  from found have f: "find_user E s ident = Some (slot, u)"
    using find_user_by_email find_user_by_username by blast
  show ?thesis
    using login_locked [OF f] login_wrong_password [OF f] login_success [OF f]
      login_unknown [OF find_user_unknown]
    by blast
qed

text \<open>
  The hasher's \<open>ValueError\<close> is a third outcome of the password check: it leaves \<open>login\<close>
  as it is raised, the failure is not recorded, and the status of the response is 400.
\<close>

lemma login_hasher_error_not_recorded:
  assumes found: "find_user E s ident = Some (slot, u)"
    and unlocked: "locked_until u = None"
    and raises: "verify_password E pw (hashed_password u) = Inl e"
  shows "login E now s ident pw = (Inl e, s)"
proof -
  have nl: "\<not> fst (is_user_locked now u)" "snd (is_user_locked now u) = u"
    using unlocked by (simp_all add: is_user_locked_def)
  show ?thesis
    using login_hasher_raises [OF found nl(1) raises] nl(2)
    by (simp add: put_user_same [OF find_user_users [OF found]])
qed

lemma lower_nobody: "str_lower test_env ''nobody'' = ''nobody''"
  by (simp add: test_env_def ascii_lower_def ascii_lower_char_def)

lemma find_nobody: "find_user test_env store0 ''nobody'' = None"
  by (simp add: find_user_def get_user_by_email_def get_user_by_username_def store0_fields
      lower_nobody)

lemma increment_failed_login_fields:
  "failed_login_attempts (increment_failed_login now u) = failed_login_attempts u + 1"
  "locked_until (increment_failed_login now u) =
     (if failed_login_attempts u + 1 \<ge> 5 then Some (now + minutes 15) else locked_until u)"
  "hashed_password (increment_failed_login now u) = hashed_password u"
  by (simp_all add: increment_failed_login_def Let_def MAX_LOGIN_ATTEMPTS_def
      LOGIN_TIMEOUT_MINUTES_def)

lemma increment_failed_login_eq:
  "increment_failed_login now u =
     u\<lparr>failed_login_attempts := failed_login_attempts u + 1,
       locked_until := (if failed_login_attempts u + 1 \<ge> 5 then Some (now + minutes 15)
                        else locked_until u)\<rparr>"
  by (simp add: increment_failed_login_def Let_def MAX_LOGIN_ATTEMPTS_def
      LOGIN_TIMEOUT_MINUTES_def)

text \<open>
  C2. At start-up, a login of the administrator with a password that holds a NUL
  character: the hasher raises, \<open>login\<close> ends with that \<open>ValueError\<close> (status 400) and the
  store is as before, no failure recorded. The same password for an unknown identifier
  gives status 401, and an ordinary wrong password for the administrator gives status
  401 and a recorded failure.
\<close>

theorem login_hasher_error_differs:
  "login test_env 0 store0 ''admin'' [CHR 0x00] =
     (Inl (ValueError Password_not_accepted_by_hasher), store0)
   \<and> status_code (ValueError Password_not_accepted_by_hasher) = 400
   \<and> login test_env 0 store0 ''nobody'' [CHR 0x00] =
     (Inl (HTTPException 401 Incorrect_email_username_or_password), store0)
   \<and> login test_env 0 store0 ''admin'' ''wrong'' =
     (Inl (HTTPException 401 Incorrect_email_username_or_password),
      put_user store0 ''admin-001'' (admin0\<lparr>failed_login_attempts := 1\<rparr>))"
proof -
  have nl: "\<not> fst (is_user_locked 0 admin0)" "snd (is_user_locked 0 admin0) = admin0"
    by (simp_all add: is_user_locked_def admin0_start)
  have inc: "increment_failed_login 0 admin0 = admin0\<lparr>failed_login_attempts := 1\<rparr>"
    by (simp add: increment_failed_login_eq admin0_def)
  have 1: "login test_env 0 store0 ''admin'' [CHR 0x00] =
     (Inl (ValueError Password_not_accepted_by_hasher), store0)"
    by (rule login_hasher_error_not_recorded [OF find_admin admin0_start(2) test_passwords(3)])
  have 2: "login test_env 0 store0 ''nobody'' [CHR 0x00] =
     (Inl (HTTPException 401 Incorrect_email_username_or_password), store0)"
    by (rule login_unknown [OF find_nobody])
  have 3: "login test_env 0 store0 ''admin'' ''wrong'' =
     (Inl (HTTPException 401 Incorrect_email_username_or_password),
      put_user store0 ''admin-001'' (admin0\<lparr>failed_login_attempts := 1\<rparr>))"
    using login_wrong_password [OF find_admin nl(1) test_passwords(1)] nl(2) inc by simp
  from 1 2 3 show ?thesis by simp
qed

lemma attempts_fail:
  assumes "find_user E s ident = Some (slot, u)"
    and "locked_until u = None"
    and "\<forall>x \<in> set xs. fst (snd x) = ident \<and>
           verify_password E (snd (snd x)) (hashed_password u) = Inr False"
    and "failed_login_attempts u + int (length xs) \<le> 5"
    and "xs \<noteq> []"
  shows "attempts E s xs =
     (replicate (length xs) (Inl (HTTPException 401 Incorrect_email_username_or_password)),
      put_user s slot (u\<lparr>failed_login_attempts := failed_login_attempts u + int (length xs),
        locked_until := (if failed_login_attempts u + int (length xs) \<ge> 5
                         then Some (fst (last xs) + minutes 15) else None)\<rparr>))"
  using assms
proof (induction xs arbitrary: s u)
  case Nil
  then show ?case by simp
next
  case (Cons x xs)
  obtain now i p where x: "x = (now, i, p)" by (cases x) auto
  from Cons.prems x have i: "i = ident"
    and p: "verify_password E p (hashed_password u) = Inr False"
    by auto
  have nl: "\<not> fst (is_user_locked now u)" "snd (is_user_locked now u) = u"
    using Cons.prems(2) by (simp_all add: is_user_locked_def)
  let ?u1 = "increment_failed_login now u"
  have l: "login E now s ident p =
      (Inl (HTTPException 401 Incorrect_email_username_or_password), put_user s slot ?u1)"
    using login_wrong_password [OF Cons.prems(1) nl(1) p] nl(2) by simp
  show ?case
  proof (cases "xs = []")
    case True
    then show ?thesis
      using l x i Cons.prems(2) by (simp add: increment_failed_login_eq)
  next
    case False
    have f: "find_user E (put_user s slot ?u1) ident = Some (slot, ?u1)"
      by (rule find_user_put_user [OF Cons.prems(1)])
    from False Cons.prems(4) have small: "failed_login_attempts u + 1 < 5"
      by (cases xs) auto
    then have lu: "locked_until ?u1 = None"
      using Cons.prems(2) by (simp add: increment_failed_login_fields)
    have v: "\<forall>x \<in> set xs. fst (snd x) = ident \<and>
        verify_password E (snd (snd x)) (hashed_password ?u1) = Inr False"
      using Cons.prems(3) by (simp add: increment_failed_login_fields)
    have n: "failed_login_attempts ?u1 + int (length xs) \<le> 5"
      using Cons.prems(4) by (simp add: increment_failed_login_fields)
    note IH = Cons.IH [OF f lu v n False]
    show ?thesis
      using l x i IH False small Cons.prems(2)
      by (simp add: increment_failed_login_eq add.assoc)
  qed
qed

text \<open>
  The lockout, for a hasher that accepts the passwords. A recorded failure adds one to
  the counter, and a counter that reaches 5 sets the lock to the clock reading plus 15
  minutes. For a user with no failures and no lock, five logins in a row with a wrong
  password all fail with status 401 and lock the user until 15 minutes after the fifth;
  a login before that moment fails with status 423 whatever the password. At or after
  that moment the lock check itself clears the lock and the counter: a login with the
  right password succeeds and leaves the counter at zero and no lock, and a login with
  a wrong password leaves the counter at one and no lock. After four failures the user
  is not locked.
\<close>

lemma lockout_after_threshold:
  assumes found: "find_user E s ident = Some (slot, u)"
    and zero: "failed_login_attempts u = 0"
    and unlocked: "locked_until u = None"
    and bad: "\<forall>p \<in> set [p1, p2, p3, p4, p5, p6].
        verify_password E p (hashed_password u) = Inr False"
    and good: "verify_password E pw (hashed_password u) = Inr True"
    and s4: "s4 = snd (attempts E s [(t1, ident, p1), (t2, ident, p2), (t3, ident, p3),
                (t4, ident, p4)])"
    and s5: "s5 = snd (attempts E s [(t1, ident, p1), (t2, ident, p2), (t3, ident, p3),
                (t4, ident, p4), (t5, ident, p5)])"
  shows "failed_login_attempts (increment_failed_login now v) = failed_login_attempts v + 1
     \<and> locked_until (increment_failed_login now v) =
         (if failed_login_attempts v + 1 \<ge> 5 then Some (now + minutes 15) else locked_until v)
     \<and> fst (attempts E s [(t1, ident, p1), (t2, ident, p2), (t3, ident, p3),
                (t4, ident, p4), (t5, ident, p5)]) =
         replicate 5 (Inl (HTTPException 401 Incorrect_email_username_or_password))
     \<and> users s5 slot = Some (u\<lparr>failed_login_attempts := 5,
           locked_until := Some (t5 + minutes 15)\<rparr>)
     \<and> (now < t5 + minutes 15 \<longrightarrow>
          login E now s5 ident any =
            (Inl (HTTPException 423 (Account_locked (seconds (t5 + minutes 15 - now) div 60))), s5))
     \<and> (t5 + minutes 15 \<le> now \<longrightarrow>
          is_user_locked now (u\<lparr>failed_login_attempts := 5,
              locked_until := Some (t5 + minutes 15)\<rparr>) =
            (False, u\<lparr>failed_login_attempts := 0, locked_until := None\<rparr>)
          \<and> fst (login E now s5 ident pw) =
            Inr (Token_body (Token
              (create_token E now (id_u u) (username u) ACCESS (minutes 30))
              (create_token E now (id_u u) (username u) REFRESH (days 7))
              ''bearer'' 1800
              (user_response (u\<lparr>failed_login_attempts := 0, locked_until := None,
                 last_login := Some now\<rparr>))))
          \<and> users (snd (login E now s5 ident pw)) slot =
              Some (u\<lparr>failed_login_attempts := 0, locked_until := None,
                 last_login := Some now\<rparr>)
          \<and> login E now s5 ident p6 =
              (Inl (HTTPException 401 Incorrect_email_username_or_password),
               put_user s5 slot (u\<lparr>failed_login_attempts := 1, locked_until := None\<rparr>)))
     \<and> (\<exists>tok. fst (login E now s4 ident pw) = Inr (Token_body tok))"
proof -
  let ?xs5 = "[(t1, ident, p1), (t2, ident, p2), (t3, ident, p3), (t4, ident, p4), (t5, ident, p5)]"
  let ?xs4 = "[(t1, ident, p1), (t2, ident, p2), (t3, ident, p3), (t4, ident, p4)]"
  let ?u5 = "u\<lparr>failed_login_attempts := 5, locked_until := Some (t5 + minutes 15)\<rparr>"
  let ?u4 = "u\<lparr>failed_login_attempts := 4, locked_until := None\<rparr>"
  have a5: "attempts E s ?xs5 =
      (replicate 5 (Inl (HTTPException 401 Incorrect_email_username_or_password)),
       put_user s slot ?u5)"
    using attempts_fail [OF found unlocked, of ?xs5] bad zero
    by (simp del: attempts.simps add: eval_nat_numeral)
  have a4: "attempts E s ?xs4 =
      (replicate 4 (Inl (HTTPException 401 Incorrect_email_username_or_password)),
       put_user s slot ?u4)"
    using attempts_fail [OF found unlocked, of ?xs4] bad zero
    by (simp del: attempts.simps add: eval_nat_numeral)
  have e5: "s5 = put_user s slot ?u5" using s5 a5 by (simp del: attempts.simps)
  have e4: "s4 = put_user s slot ?u4" using s4 a4 by (simp del: attempts.simps)
  have f5: "find_user E s5 ident = Some (slot, ?u5)"
    unfolding e5 by (rule find_user_put_user [OF found])
  have f4: "find_user E s4 ident = Some (slot, ?u4)"
    unfolding e4 by (rule find_user_put_user [OF found])
  have c1: "users s5 slot = Some ?u5"
    by (rule find_user_users [OF f5])
  have c2: "now < t5 + minutes 15 \<longrightarrow>
      login E now s5 ident any =
        (Inl (HTTPException 423 (Account_locked (seconds (t5 + minutes 15 - now) div 60))), s5)"
    using login_locked [OF f5, of "t5 + minutes 15" now any] by simp
  have c3: "t5 + minutes 15 \<le> now \<longrightarrow>
      is_user_locked now ?u5 = (False, u\<lparr>failed_login_attempts := 0, locked_until := None\<rparr>)
      \<and> fst (login E now s5 ident pw) =
        Inr (Token_body (Token
          (create_token E now (id_u u) (username u) ACCESS (minutes 30))
          (create_token E now (id_u u) (username u) REFRESH (days 7))
          ''bearer'' 1800
          (user_response (u\<lparr>failed_login_attempts := 0, locked_until := None,
             last_login := Some now\<rparr>))))
      \<and> users (snd (login E now s5 ident pw)) slot =
          Some (u\<lparr>failed_login_attempts := 0, locked_until := None,
             last_login := Some now\<rparr>)
      \<and> login E now s5 ident p6 =
          (Inl (HTTPException 401 Incorrect_email_username_or_password),
           put_user s5 slot (u\<lparr>failed_login_attempts := 1, locked_until := None\<rparr>))"
  proof
    assume late: "t5 + minutes 15 \<le> now"
    then have nl: "\<not> fst (is_user_locked now ?u5)"
      by (simp add: is_user_locked_fst)
    from late have cl: "is_user_locked now ?u5 =
        (False, u\<lparr>failed_login_attempts := 0, locked_until := None\<rparr>)"
      by (simp add: is_user_locked_def)
    have g: "verify_password E pw (hashed_password ?u5) = Inr True" using good by simp
    have w: "verify_password E p6 (hashed_password ?u5) = Inr False" using bad by simp
    have ok: "fst (login E now s5 ident pw) =
        Inr (Token_body (Token
          (create_token E now (id_u u) (username u) ACCESS (minutes 30))
          (create_token E now (id_u u) (username u) REFRESH (days 7))
          ''bearer'' 1800
          (user_response (u\<lparr>failed_login_attempts := 0, locked_until := None,
             last_login := Some now\<rparr>))))
      \<and> users (snd (login E now s5 ident pw)) slot =
          Some (u\<lparr>failed_login_attempts := 0, locked_until := None,
             last_login := Some now\<rparr>)"
      by (simp add: login_success [OF f5 nl g] put_user_def)
    have wrong: "login E now s5 ident p6 =
          (Inl (HTTPException 401 Incorrect_email_username_or_password),
           put_user s5 slot (u\<lparr>failed_login_attempts := 1, locked_until := None\<rparr>))"
      using login_wrong_password [OF f5 nl w]
      by (simp add: cl increment_failed_login_eq)
    from cl ok wrong show "is_user_locked now ?u5 =
        (False, u\<lparr>failed_login_attempts := 0, locked_until := None\<rparr>)
      \<and> fst (login E now s5 ident pw) =
        Inr (Token_body (Token
          (create_token E now (id_u u) (username u) ACCESS (minutes 30))
          (create_token E now (id_u u) (username u) REFRESH (days 7))
          ''bearer'' 1800
          (user_response (u\<lparr>failed_login_attempts := 0, locked_until := None,
             last_login := Some now\<rparr>))))
      \<and> users (snd (login E now s5 ident pw)) slot =
          Some (u\<lparr>failed_login_attempts := 0, locked_until := None,
             last_login := Some now\<rparr>)
      \<and> login E now s5 ident p6 =
          (Inl (HTTPException 401 Incorrect_email_username_or_password),
           put_user s5 slot (u\<lparr>failed_login_attempts := 1, locked_until := None\<rparr>))"
      by blast
  qed
  have c4: "\<exists>tok. fst (login E now s4 ident pw) = Inr (Token_body tok)"
  proof -
    have nl: "\<not> fst (is_user_locked now ?u4)"
      by (simp add: is_user_locked_fst)
    have g: "verify_password E pw (hashed_password ?u4) = Inr True" using good by simp
    show ?thesis
      by (simp add: login_success [OF f4 nl g])
  qed
  show ?thesis
    using a5 c1 c2 c3 c4 by (simp del: attempts.simps add: increment_failed_login_fields)
qed

lemma store_locked_eq:
  "store_locked = put_user store0 ''admin-001''
     (admin0\<lparr>failed_login_attempts := 5, locked_until := Some 900000005\<rparr>)"
  using attempts_fail [OF find_admin admin0_start(2),
      of "[(1, ''admin'', ''wrong''), (2, ''admin'', ''wrong''), (3, ''admin'', ''wrong''),
           (4, ''admin'', ''wrong''), (5, ''admin'', ''wrong'')]"]
  by (simp del: attempts.simps add: store_locked_def test_passwords admin0_start minutes_def)

lemma lockout_after_threshold_example:
  "users store_locked ''admin-001'' =
        Some (admin0\<lparr>failed_login_attempts := 5, locked_until := Some 900000005\<rparr>)
   \<and> login test_env 6 store_locked ''admin'' ''Admin123!'' =
        (Inl (HTTPException 423 (Account_locked 14)), store_locked)
   \<and> users (snd (login test_env 900000005 store_locked ''admin'' ''Admin123!'')) ''admin-001'' =
        Some (admin0\<lparr>failed_login_attempts := 0, locked_until := None,
          last_login := Some 900000005\<rparr>)
   \<and> users (snd (login test_env 900000005 store_locked ''admin'' ''wrong'')) ''admin-001'' =
        Some (admin0\<lparr>failed_login_attempts := 1, locked_until := None\<rparr>)"
proof -
  have bad: "\<forall>p \<in> set [''wrong'', ''wrong'', ''wrong'', ''wrong'', ''wrong'', ''wrong''].
      verify_password test_env p (hashed_password admin0) = Inr False"
    by (simp add: test_passwords)
  have s5: "store_locked = snd (attempts test_env store0
     [(1, ''admin'', ''wrong''), (2, ''admin'', ''wrong''), (3, ''admin'', ''wrong''),
      (4, ''admin'', ''wrong''), (5, ''admin'', ''wrong'')])"
    by (rule store_locked_def)
  note lock = lockout_after_threshold [OF find_admin admin0_start bad test_passwords(2) refl s5,
      where now = 6 and any = "''Admin123!''"]
  note free = lockout_after_threshold [OF find_admin admin0_start bad test_passwords(2) refl s5,
      where now = 900000005]
  have r: "seconds (5 + minutes 15 - 6) div 60 = 14"
    by (simp add: seconds_def minutes_def)
  have late: "(5::int) + minutes 15 \<le> 900000005" "(6::int) < 5 + minutes 15"
    by (simp_all add: minutes_def)
  from lock have a: "users store_locked ''admin-001'' =
      Some (admin0\<lparr>failed_login_attempts := 5, locked_until := Some (5 + minutes 15)\<rparr>)"
    by blast
  from lock late(2) have b: "login test_env 6 store_locked ''admin'' ''Admin123!'' =
      (Inl (HTTPException 423 (Account_locked (seconds (5 + minutes 15 - 6) div 60))),
       store_locked)"
    by blast
  from free late(1) have c:
    "users (snd (login test_env 900000005 store_locked ''admin'' ''Admin123!'')) ''admin-001'' =
       Some (admin0\<lparr>failed_login_attempts := 0, locked_until := None,
         last_login := Some 900000005\<rparr>)"
    "login test_env 900000005 store_locked ''admin'' ''wrong'' =
       (Inl (HTTPException 401 Incorrect_email_username_or_password),
        put_user store_locked ''admin-001''
          (admin0\<lparr>failed_login_attempts := 1, locked_until := None\<rparr>))"
    by blast+
  from a b c r show ?thesis
    by (simp add: minutes_def put_user_def)
qed

lemma login_nul_password:
  "login test_env now store0 ''admin'' [CHR 0x00] =
     (Inl (ValueError Password_not_accepted_by_hasher), store0)"
  by (rule login_hasher_error_not_recorded [OF find_admin admin0_start(2) test_passwords(3)])

text \<open>
  C3. At start-up, five logins of the administrator in a row with a password that holds
  a NUL character: each ends with the hasher's \<open>ValueError\<close> (status 400), the store is as
  before, the counter of failures is 0 and there is no lock; the next login, with the
  right password, succeeds.
\<close>

theorem lockout_skipped_on_hasher_error:
  "fst (attempts test_env store0
     [(1, ''admin'', [CHR 0x00]), (2, ''admin'', [CHR 0x00]), (3, ''admin'', [CHR 0x00]),
      (4, ''admin'', [CHR 0x00]), (5, ''admin'', [CHR 0x00])]) =
     replicate 5 (Inl (ValueError Password_not_accepted_by_hasher))
   \<and> store_nul = store0
   \<and> users store_nul ''admin-001'' = Some admin0
   \<and> failed_login_attempts admin0 = 0 \<and> locked_until admin0 = None
   \<and> fst (login test_env 6 store_nul ''admin'' ''Admin123!'') =
       Inr (Token_body (Token ''access.admin-001.'' ''refresh.admin-001.'' ''bearer'' 1800
         (user_response (admin0\<lparr>last_login := Some 6\<rparr>))))"
proof -
  have a: "attempts test_env store0
     [(1, ''admin'', [CHR 0x00]), (2, ''admin'', [CHR 0x00]), (3, ''admin'', [CHR 0x00]),
      (4, ''admin'', [CHR 0x00]), (5, ''admin'', [CHR 0x00])] =
     (replicate 5 (Inl (ValueError Password_not_accepted_by_hasher)), store0)"
    by (simp add: login_nul_password eval_nat_numeral)
  have e: "store_nul = store0"
    using a by (simp del: attempts.simps add: store_nul_def)
  have nl: "\<not> fst (is_user_locked 6 admin0)"
    by (simp add: is_user_locked_def admin0_start)
  have t: "create_token test_env 6 ''admin-001'' ''admin'' ACCESS (minutes 30) = ''access.admin-001.''"
    "create_token test_env 6 ''admin-001'' ''admin'' REFRESH (days 7) = ''refresh.admin-001.''"
    by (simp_all add: create_token_def test_env_def)
  have same: "admin0\<lparr>failed_login_attempts := 0, locked_until := None, last_login := Some 6\<rparr>
      = admin0\<lparr>last_login := Some 6\<rparr>"
    by (simp add: admin0_def)
  have l: "fst (login test_env 6 store0 ''admin'' ''Admin123!'') =
       Inr (Token_body (Token ''access.admin-001.'' ''refresh.admin-001.'' ''bearer'' 1800
         (user_response (admin0\<lparr>last_login := Some 6\<rparr>))))"
    by (simp add: login_success [OF find_admin nl test_passwords(2)] admin0_names t same)
  from a e l show ?thesis
    by (simp del: attempts.simps add: store0_fields admin0_start)
qed

subsection \<open>Password reset\<close>

lemma cleanup_user_tokens_fields [simp]:
  "users (cleanup_user_tokens s uid) = users s"
  "email_index (cleanup_user_tokens s uid) = email_index s"
  "username_index (cleanup_user_tokens s uid) = username_index s"
  "password_reset_tokens (cleanup_user_tokens s uid) = password_reset_tokens s"
  by (simp_all add: cleanup_user_tokens_def)

lemma put_user_fields [simp]:
  "users (put_user s k u) = (users s)(k \<mapsto> u)"
  "email_index (put_user s k u) = email_index s"
  "username_index (put_user s k u) = username_index s"
  "refresh_tokens (put_user s k u) = refresh_tokens s"
  "password_reset_tokens (put_user s k u) = password_reset_tokens s"
  by (simp_all add: put_user_def)

lemma tokens_to_remove_put_user [simp]:
  "tokens_to_remove (put_user s k u) = tokens_to_remove s"
  by (simp add: tokens_to_remove_def fun_eq_iff)

lemma reset_password_success:
  assumes tok: "password_reset_tokens s tok = Some td"
    and fresh: "now \<le> expires_at td"
    and uid: "user_id td \<noteq> []"
    and usr: "users s (user_id td) = Some u"
    and hash: "get_password_hash E salt pw = Inr h"
  shows "reset_password E now salt s tok pw =
     (Inr (Json [(''message'', ''Password reset successfully'')]),
      (cleanup_user_tokens
         (put_user s (user_id td)
            (u\<lparr>hashed_password := h, failed_login_attempts := 0,
               locked_until := None, updated_at := now\<rparr>))
         (user_id td))
      \<lparr>password_reset_tokens := (password_reset_tokens s)(tok := None)\<rparr>)"
  using assms
  by (simp add: reset_password_def validate_reset_token_def update_user_def Let_def
      get_user_by_id_def)

lemma get_password_hash_cases:
  "get_password_hash E salt pw = Inl (ValueError Password_not_accepted_by_hasher)
   \<or> (\<exists>h. get_password_hash E salt pw = Inr h)"
  by (simp add: get_password_hash_def split: option.splits)

lemma reset_password_again:
  "fst (reset_password E now salt s tok pw) \<noteq> Inl (ValueError Password_not_accepted_by_hasher)
   \<Longrightarrow> fst (reset_password E now' salt' (snd (reset_password E now salt s tok pw)) tok pw') =
     Inl (HTTPException 400 Invalid_or_expired_reset_token)"
  using get_password_hash_cases [of E salt pw]
  by (auto simp add: reset_password_def validate_reset_token_def update_user_def Let_def
      get_user_by_id_def split: option.splits if_splits sum.splits)

lemma reset_password_expired:
  "password_reset_tokens s tok = Some td \<Longrightarrow> expires_at td < now \<Longrightarrow>
     reset_password E now salt s tok pw =
       (Inl (HTTPException 400 Invalid_or_expired_reset_token),
        s\<lparr>password_reset_tokens := (password_reset_tokens s)(tok := None)\<rparr>)"
  by (simp add: reset_password_def validate_reset_token_def)

lemma reset_password_only_valid:
  "fst (reset_password E now salt s tok pw) = Inr r \<Longrightarrow>
     \<exists>td. password_reset_tokens s tok = Some td \<and> now \<le> expires_at td
       \<and> user_id td \<noteq> [] \<and> users s (user_id td) \<noteq> None
       \<and> (\<exists>h. get_password_hash E salt pw = Inr h)"
  by (auto simp add: reset_password_def validate_reset_token_def Let_def update_user_def
      get_user_by_id_def split: option.splits if_splits sum.splits)

lemma reset_password_succeeds_iff:
  "(\<exists>r. fst (reset_password E now salt s tok pw) = Inr r) \<longleftrightarrow>
     (\<exists>td. password_reset_tokens s tok = Some td \<and> now \<le> expires_at td
        \<and> user_id td \<noteq> [] \<and> users s (user_id td) \<noteq> None
        \<and> (\<exists>h. get_password_hash E salt pw = Inr h))"
proof
  assume "\<exists>r. fst (reset_password E now salt s tok pw) = Inr r"
  then show "\<exists>td. password_reset_tokens s tok = Some td \<and> now \<le> expires_at td
       \<and> user_id td \<noteq> [] \<and> users s (user_id td) \<noteq> None
       \<and> (\<exists>h. get_password_hash E salt pw = Inr h)"
    using reset_password_only_valid by blast
next
  assume "\<exists>td. password_reset_tokens s tok = Some td \<and> now \<le> expires_at td
       \<and> user_id td \<noteq> [] \<and> users s (user_id td) \<noteq> None
       \<and> (\<exists>h. get_password_hash E salt pw = Inr h)"
  then obtain td u h where "password_reset_tokens s tok = Some td" "now \<le> expires_at td"
    "user_id td \<noteq> []" "users s (user_id td) = Some u" "get_password_hash E salt pw = Inr h"
    by blast
  from reset_password_success [OF this]
  show "\<exists>r. fst (reset_password E now salt s tok pw) = Inr r"
    by simp
qed

text \<open>
  C6. For a reset token that is known and unexpired (the clock is not past its
  \<open>expires_at\<close>) and whose user exists, and a new password that the hasher accepts,
  \<open>reset_password\<close> succeeds: the user's password hash becomes the hash of the new
  password, the failure counter is 0 and the lock is gone, every refresh token of the
  user has left the ledger and is blacklisted, no ledger entry names the user, and the
  reset token is deleted. A token past its expiry is refused with status 400, and a
  redemption succeeds exactly for a known and unexpired token whose user exists and a
  password the hasher accepts. After a redemption, successful or not, a second
  redemption of the same token is refused with status 400; the one exception is a first
  attempt that ended in the hasher's \<open>ValueError\<close>, which has redeemed nothing.
\<close>

theorem reset_password_redeems_once:
  "(password_reset_tokens s tok = Some td \<longrightarrow> now \<le> expires_at td \<longrightarrow> user_id td \<noteq> [] \<longrightarrow>
      users s (user_id td) = Some u \<longrightarrow> get_password_hash E salt pw = Inr h \<longrightarrow>
      fst (reset_password E now salt s tok pw) =
        Inr (Json [(''message'', ''Password reset successfully'')])
      \<and> users (snd (reset_password E now salt s tok pw)) (user_id td) =
          Some (u\<lparr>hashed_password := h, failed_login_attempts := 0,
            locked_until := None, updated_at := now\<rparr>)
      \<and> (\<forall>t d. refresh_tokens s t = Some d \<longrightarrow> user_id d = user_id td \<longrightarrow>
            refresh_tokens (snd (reset_password E now salt s tok pw)) t = None
            \<and> t \<in> blacklisted_tokens (snd (reset_password E now salt s tok pw)))
      \<and> (\<forall>t d. refresh_tokens (snd (reset_password E now salt s tok pw)) t = Some d \<longrightarrow>
            user_id d \<noteq> user_id td)
      \<and> password_reset_tokens (snd (reset_password E now salt s tok pw)) tok = None)
   \<and> (password_reset_tokens s tok = Some td \<longrightarrow> expires_at td < now \<longrightarrow>
        fst (reset_password E now salt s tok pw) =
          Inl (HTTPException 400 Invalid_or_expired_reset_token))
   \<and> ((\<exists>r. fst (reset_password E now salt s tok pw) = Inr r) \<longleftrightarrow>
        (\<exists>td'. password_reset_tokens s tok = Some td' \<and> now \<le> expires_at td'
           \<and> user_id td' \<noteq> [] \<and> users s (user_id td') \<noteq> None
           \<and> (\<exists>h'. get_password_hash E salt pw = Inr h')))
   \<and> (fst (reset_password E now salt s tok pw) \<noteq>
          Inl (ValueError Password_not_accepted_by_hasher) \<longrightarrow>
        fst (reset_password E now' salt' (snd (reset_password E now salt s tok pw)) tok pw') =
          Inl (HTTPException 400 Invalid_or_expired_reset_token))"
proof (intro conjI impI)
  assume a: "password_reset_tokens s tok = Some td" "now \<le> expires_at td" "user_id td \<noteq> []"
    "users s (user_id td) = Some u" "get_password_hash E salt pw = Inr h"
  note r = reset_password_success [OF a]
  show "fst (reset_password E now salt s tok pw) =
      Inr (Json [(''message'', ''Password reset successfully'')])"
    by (simp add: r)
  show "users (snd (reset_password E now salt s tok pw)) (user_id td) =
      Some (u\<lparr>hashed_password := h, failed_login_attempts := 0,
        locked_until := None, updated_at := now\<rparr>)"
    by (simp add: r)
  show "\<forall>t d. refresh_tokens s t = Some d \<longrightarrow> user_id d = user_id td \<longrightarrow>
      refresh_tokens (snd (reset_password E now salt s tok pw)) t = None
      \<and> t \<in> blacklisted_tokens (snd (reset_password E now salt s tok pw))"
    by (simp add: r cleanup_user_tokens_def tokens_to_remove_def)
  show "\<forall>t d. refresh_tokens (snd (reset_password E now salt s tok pw)) t = Some d \<longrightarrow>
      user_id d \<noteq> user_id td"
    by (auto simp add: r cleanup_user_tokens_def tokens_to_remove_def
        split: if_splits option.splits)
  show "password_reset_tokens (snd (reset_password E now salt s tok pw)) tok = None"
    by (simp add: r)
next
  assume "password_reset_tokens s tok = Some td" "expires_at td < now"
  then show "fst (reset_password E now salt s tok pw) =
      Inl (HTTPException 400 Invalid_or_expired_reset_token)"
    by (simp add: reset_password_expired)
next
  show "(\<exists>r. fst (reset_password E now salt s tok pw) = Inr r) \<longleftrightarrow>
      (\<exists>td'. password_reset_tokens s tok = Some td' \<and> now \<le> expires_at td'
         \<and> user_id td' \<noteq> [] \<and> users s (user_id td') \<noteq> None
         \<and> (\<exists>h'. get_password_hash E salt pw = Inr h'))"
    by (rule reset_password_succeeds_iff)
next
  assume "fst (reset_password E now salt s tok pw) \<noteq>
      Inl (ValueError Password_not_accepted_by_hasher)"
  then show "fst (reset_password E now' salt' (snd (reset_password E now salt s tok pw)) tok pw') =
      Inl (HTTPException 400 Invalid_or_expired_reset_token)"
    by (rule reset_password_again)
qed

lemma store_with_token_fields:
  "users store_with_token = [''admin-001'' \<mapsto> admin0]"
  "email_index store_with_token = [''admin@aimini.games'' \<mapsto> ''admin-001'']"
  "password_reset_tokens store_with_token = Map.empty"
  by (simp_all add: store_with_token_def store_refresh_token_def store0_fields)

lemma get_admin_by_email:
  "get_user_by_email store_with_token ''admin@aimini.games'' = Some (''admin-001'', admin0)"
  by (simp add: get_user_by_email_def get_user_by_id_def store_with_token_fields)

lemma normal_addresses:
  "email_str test_env ''admin@aimini.games'' = Some ''admin@aimini.games''"
  "email_str test_env ''nobody@example.com'' = Some ''nobody@example.com''"
  "email_str test_env ''admin@AIMINI.GAMES'' = Some ''admin@aimini.games''"
  "email_str test_env ''Admin@AIMINI.GAMES'' = Some ''Admin@aimini.games''"
  by (simp_all add: test_env_def ascii_lower_def ascii_lower_char_def)

lemma store_reset_eq:
  "store_reset = store_with_token\<lparr>password_reset_tokens :=
     [''rtok'' \<mapsto> \<lparr>user_id = ''admin-001'', expires_at = 3600000000, issued_at = 0\<rparr>]\<rparr>"
  by (simp add: store_reset_def request_password_reset_def normal_addresses get_admin_by_email
      create_password_reset_token_def hours_def admin0_def store_with_token_fields)

theorem reset_password_redeems_once_witness:
  "password_reset_tokens store_reset ''rtok'' =
      Some \<lparr>user_id = ''admin-001'', expires_at = 3600000000, issued_at = 0\<rparr>
   \<and> users store_reset ''admin-001'' = Some admin0
   \<and> get_password_hash test_env ''pepper'' ''NewPassw0rd1'' = Inr ''pepper$NewPassw0rd1''
   \<and> refresh_tokens store_reset ''tok'' =
      Some \<lparr>user_id = ''admin-001'', expires_at = 100, issued_at = 0\<rparr>
   \<and> fst (reset_password test_env 10 ''pepper'' store_reset ''rtok'' ''NewPassw0rd1'') =
      Inr (Json [(''message'', ''Password reset successfully'')])
   \<and> users (snd (reset_password test_env 10 ''pepper'' store_reset ''rtok'' ''NewPassw0rd1''))
        ''admin-001'' =
      Some (admin0\<lparr>hashed_password := ''pepper$NewPassw0rd1'', failed_login_attempts := 0,
        locked_until := None, updated_at := 10\<rparr>)
   \<and> refresh_tokens (snd (reset_password test_env 10 ''pepper'' store_reset ''rtok''
        ''NewPassw0rd1'')) ''tok'' = None
   \<and> ''tok'' \<in> blacklisted_tokens (snd (reset_password test_env 10 ''pepper'' store_reset
        ''rtok'' ''NewPassw0rd1''))
   \<and> fst (reset_password test_env 11 ''pepper''
        (snd (reset_password test_env 10 ''pepper'' store_reset ''rtok'' ''NewPassw0rd1''))
        ''rtok'' ''Other1Pass'') = Inl (HTTPException 400 Invalid_or_expired_reset_token)
   \<and> fst (reset_password test_env 3600000001 ''pepper'' store_reset ''rtok'' ''NewPassw0rd1'') =
      Inl (HTTPException 400 Invalid_or_expired_reset_token)"
proof -
  let ?td = "\<lparr>user_id = ''admin-001'', expires_at = 3600000000, issued_at = 0\<rparr>"
  have t: "password_reset_tokens store_reset ''rtok'' = Some ?td"
    by (simp add: store_reset_eq)
  have u: "users store_reset ''admin-001'' = Some admin0"
    by (simp add: store_reset_eq store_with_token_fields)
  have l: "refresh_tokens store_reset ''tok'' =
      Some \<lparr>user_id = ''admin-001'', expires_at = 100, issued_at = 0\<rparr>"
    by (simp add: store_reset_eq store_with_token_ledger)
  have h: "get_password_hash test_env ''pepper'' ''NewPassw0rd1'' = Inr ''pepper$NewPassw0rd1''"
    by (simp add: get_password_hash_def test_env_def)
  note ok = reset_password_redeems_once [where s = store_reset and tok = "''rtok''" and td = ?td
      and now = 10 and u = admin0 and E = test_env and salt = "''pepper''"
      and pw = "''NewPassw0rd1''" and h = "''pepper$NewPassw0rd1''"
      and now' = 11 and salt' = "''pepper''" and pw' = "''Other1Pass''"]
  note late = reset_password_redeems_once [where s = store_reset and tok = "''rtok''" and td = ?td
      and now = 3600000001 and E = test_env and salt = "''pepper''" and pw = "''NewPassw0rd1''"]
  show ?thesis
    using ok late t u l h by simp
qed

text \<open>
  C7. \<open>request_password_reset\<close> at start-up: for the administrator's email the response has
  the members \<open>message\<close> and \<open>reset_token\<close>, for an unknown email it has \<open>message\<close> alone.
\<close>

theorem request_password_reset_shapes_differ:
  "fst (request_password_reset test_env 0 ''rtok'' store0 ''admin@aimini.games'') =
     Inr (Json [(''message'', ''If the email exists, a reset link has been sent''),
                (''reset_token'', ''rtok'')])
   \<and> fst (request_password_reset test_env 0 ''rtok'' store0 ''nobody@example.com'') =
     Inr (Json [(''message'', ''If the email exists, a reset link has been sent'')])
   \<and> map_sum id shape
       (fst (request_password_reset test_env 0 ''rtok'' store0 ''admin@aimini.games'')) =
     Inr [''message'', ''reset_token'']
   \<and> map_sum id shape
       (fst (request_password_reset test_env 0 ''rtok'' store0 ''nobody@example.com'')) =
     Inr [''message'']"
  by (simp add: request_password_reset_def normal_addresses get_user_by_email_def
      get_user_by_id_def create_password_reset_token_def store0_fields shape_def)

subsection \<open>The indices of the user directory\<close>

lemma setattr_neutral:
  "index_neutral a \<Longrightarrow> email (setattr u a) = email u \<and> username (setattr u a) = username u"
  by (cases a) simp_all

lemma foldl_setattr_neutral:
  "list_all index_neutral ds \<Longrightarrow>
     email (foldl setattr u ds) = email u \<and> username (foldl setattr u ds) = username u"
  by (induction ds arbitrary: u) (simp_all add: setattr_neutral)

lemma consistentD1:
  "indices_consistent s \<Longrightarrow> email_index s e = Some uid \<Longrightarrow> \<exists>u. users s uid = Some u \<and> email u = e"
  unfolding indices_consistent_def by blast

lemma consistentD2:
  "indices_consistent s \<Longrightarrow> username_index s n = Some uid \<Longrightarrow>
     \<exists>u. users s uid = Some u \<and> username u = n"
  unfolding indices_consistent_def by blast

lemma consistentD3:
  "indices_consistent s \<Longrightarrow> users s uid = Some u \<Longrightarrow>
     email_index s (email u) = Some uid \<and> username_index s (username u) = Some uid"
  unfolding indices_consistent_def by blast

lemma consistentI:
  assumes "\<And>e uid. email_index s e = Some uid \<Longrightarrow> \<exists>u. users s uid = Some u \<and> email u = e"
    and "\<And>n uid. username_index s n = Some uid \<Longrightarrow> \<exists>u. users s uid = Some u \<and> username u = n"
    and "\<And>uid u. users s uid = Some u \<Longrightarrow>
           email_index s (email u) = Some uid \<and> username_index s (username u) = Some uid"
  shows "indices_consistent s"
  unfolding indices_consistent_def using assms by blast

lemma consistent_init: "init_store E now salt = Inr s \<Longrightarrow> indices_consistent s"
  by (auto simp add: indices_consistent_def init_store_def Let_def
      split: sum.splits if_splits)

lemma consistent_create:
  assumes c: "indices_consistent s" and fresh: "users s (''user-'' @ rand) = None"
  shows "indices_consistent (snd (create_user E now rand salt s d))"
proof (cases "email_index s (uc_email d) = None
    \<and> username_index s (str_lower E (uc_username d)) = None
    \<and> (\<exists>h. get_password_hash E salt (uc_password d) = Inr h)")
  case False
  then show ?thesis
    using c by (auto simp add: create_user_def split: sum.splits)
next
  case True
  then obtain h where h: "get_password_hash E salt (uc_password d) = Inr h"
    by blast
  define k where "k = ''user-'' @ rand"
  define v where "v = \<lparr>id_u = k, email = uc_email d, username = str_lower E (uc_username d),
      full_name = uc_full_name d, hashed_password = h,
      role = USER, is_active = True, created_at = now, updated_at = now,
      last_login = None, failed_login_attempts = 0, locked_until = None\<rparr>"
  define s' where "s' = s\<lparr>users := (users s)(k \<mapsto> v),
      email_index := (email_index s)(email v \<mapsto> k),
      username_index := (username_index s)(username v \<mapsto> k)\<rparr>"
  have eq: "snd (create_user E now rand salt s d) = s'"
    using True h by (simp add: create_user_def Let_def s'_def v_def k_def)
  have ev: "email_index s (email v) = None" "username_index s (username v) = None"
    using True by (simp_all add: v_def)
  have kn: "users s k = None" using fresh by (simp add: k_def)
  have "indices_consistent s'"
  proof (rule consistentI)
    fix e uid assume a: "email_index s' e = Some uid"
    show "\<exists>u. users s' uid = Some u \<and> email u = e"
    proof (cases "e = email v")
      case True
      with a show ?thesis by (simp add: s'_def)
    next
      case False
      with a have "email_index s e = Some uid" by (simp add: s'_def)
      from consistentD1 [OF c this] obtain u where u: "users s uid = Some u" "email u = e"
        by blast
      with kn have "uid \<noteq> k" by auto
      with u show ?thesis by (simp add: s'_def)
    qed
  next
    fix n uid assume a: "username_index s' n = Some uid"
    show "\<exists>u. users s' uid = Some u \<and> username u = n"
    proof (cases "n = username v")
      case True
      with a show ?thesis by (simp add: s'_def)
    next
      case False
      with a have "username_index s n = Some uid" by (simp add: s'_def)
      from consistentD2 [OF c this] obtain u where u: "users s uid = Some u" "username u = n"
        by blast
      with kn have "uid \<noteq> k" by auto
      with u show ?thesis by (simp add: s'_def)
    qed
  next
    fix uid u assume a: "users s' uid = Some u"
    show "email_index s' (email u) = Some uid \<and> username_index s' (username u) = Some uid"
    proof (cases "uid = k")
      case True
      with a have "u = v" by (simp add: s'_def)
      with True show ?thesis by (simp add: s'_def)
    next
      case False
      with a have old: "users s uid = Some u" by (simp add: s'_def)
      note d = consistentD3 [OF c old]
      from d ev have "email u \<noteq> email v" "username u \<noteq> username v" by auto
      with d show ?thesis by (simp add: s'_def)
    qed
  qed
  with eq show ?thesis by simp
qed

lemma consistent_update:
  assumes c: "indices_consistent s" and n: "list_all index_neutral ds"
  shows "indices_consistent (snd (update_user now s uid ds))"
proof (cases "users s uid")
  case None
  then show ?thesis using c by (simp add: update_user_def)
next
  case (Some u)
  define v where "v = (foldl setattr u ds)\<lparr>updated_at := now\<rparr>"
  have ev: "email v = email u" "username v = username u"
    using foldl_setattr_neutral [OF n, of u] by (simp_all add: v_def)
  have eq: "snd (update_user now s uid ds) = put_user s uid v"
    using Some by (simp add: update_user_def Let_def v_def)
  have "indices_consistent (put_user s uid v)"
  proof (rule consistentI)
    fix e k assume "email_index (put_user s uid v) e = Some k"
    then have "email_index s e = Some k" by simp
    from consistentD1 [OF c this] Some ev
    show "\<exists>u. users (put_user s uid v) k = Some u \<and> email u = e" by auto
  next
    fix m k assume "username_index (put_user s uid v) m = Some k"
    then have "username_index s m = Some k" by simp
    from consistentD2 [OF c this] Some ev
    show "\<exists>u. users (put_user s uid v) k = Some u \<and> username u = m" by auto
  next
    fix k w assume a: "users (put_user s uid v) k = Some w"
    show "email_index (put_user s uid v) (email w) = Some k
        \<and> username_index (put_user s uid v) (username w) = Some k"
    proof (cases "k = uid")
      case True
      with a have "w = v" by simp
      with True consistentD3 [OF c Some] ev show ?thesis by simp
    next
      case False
      with a have "users s k = Some w" by simp
      from consistentD3 [OF c this] show ?thesis by simp
    qed
  qed
  with eq show ?thesis by simp
qed

lemma consistent_delete:
  assumes c: "indices_consistent s"
  shows "indices_consistent (snd (delete_user s uid))"
proof (cases "users s uid")
  case None
  then show ?thesis using c by (simp add: delete_user_def)
next
  case (Some u)
  define s' where "s' = snd (delete_user s uid)"
  have f: "users s' = (users s)(uid := None)"
    "email_index s' = (email_index s)(email u := None)"
    "username_index s' = (username_index s)(username u := None)"
    using Some by (simp_all add: s'_def delete_user_def Let_def)
  note du = consistentD3 [OF c Some]
  have "indices_consistent s'"
  proof (rule consistentI)
    fix e k assume a: "email_index s' e = Some k"
    then have ne: "e \<noteq> email u" and old: "email_index s e = Some k"
      by (auto simp add: f split: if_splits)
    from consistentD1 [OF c old] obtain w where w: "users s k = Some w" "email w = e" by blast
    with ne Some have "k \<noteq> uid" by auto
    with w show "\<exists>u. users s' k = Some u \<and> email u = e" by (simp add: f)
  next
    fix m k assume a: "username_index s' m = Some k"
    then have ne: "m \<noteq> username u" and old: "username_index s m = Some k"
      by (auto simp add: f split: if_splits)
    from consistentD2 [OF c old] obtain w where w: "users s k = Some w" "username w = m" by blast
    with ne Some have "k \<noteq> uid" by auto
    with w show "\<exists>u. users s' k = Some u \<and> username u = m" by (simp add: f)
  next
    fix k w assume a: "users s' k = Some w"
    then have ne: "k \<noteq> uid" and old: "users s k = Some w"
      by (auto simp add: f split: if_splits)
    note dw = consistentD3 [OF c old]
    from dw du ne have "email w \<noteq> email u" "username w \<noteq> username u" by auto
    with dw show "email_index s' (email w) = Some k \<and> username_index s' (username w) = Some k"
      by (simp add: f)
  qed
  then show ?thesis by (simp add: s'_def)
qed

lemma directory_reachable_consistent: "directory_reachable E s \<Longrightarrow> indices_consistent s"
  by (induction rule: directory_reachable.induct)
    (simp_all add: consistent_init consistent_create consistent_update consistent_delete)

text \<open>
  C8, as amended. In every store that \<open>create_user\<close>, \<open>update_user\<close> and \<open>delete_user\<close> lead
  to from start-up, provided the generated ids are not in use and the patches given to
  \<open>update_user\<close> leave \<open>email\<close> and \<open>username\<close> alone, the two indices are consistent with
  the user records: every index entry names an existing user with that email or
  username, and every user has exactly one entry in each index, under its own email and
  its own username.
\<close>

theorem indices_stay_consistent:
  assumes "directory_reachable E s"
  shows "indices_consistent s
     \<and> (\<forall>uid u. users s uid = Some u \<longrightarrow>
          (\<forall>e. email_index s e = Some uid \<longleftrightarrow> e = email u)
          \<and> (\<forall>n. username_index s n = Some uid \<longleftrightarrow> n = username u))"
proof -
  have c: "indices_consistent s"
    by (rule directory_reachable_consistent [OF assms])
  have "\<And>uid u. users s uid = Some u \<Longrightarrow>
          (\<forall>e. email_index s e = Some uid \<longleftrightarrow> e = email u)
          \<and> (\<forall>n. username_index s n = Some uid \<longleftrightarrow> n = username u)"
    using consistentD1 [OF c] consistentD2 [OF c] consistentD3 [OF c] by fastforce
  with c show ?thesis by blast
qed

lemma store_created_reachable: "directory_reachable test_env store_created"
  unfolding store_created_def
  by (rule directory_create [OF directory_init [OF init_store_test_env]])
    (simp add: store0_fields)

theorem indices_stay_consistent_witness:
  "directory_reachable test_env store_created
   \<and> indices_consistent store_created
   \<and> email_index store_created ''a@x.com'' = Some ''user-00ff''
   \<and> username_index store_created ''alice'' = Some ''user-00ff''"
proof -
  have l: "str_lower test_env ''alice'' = ''alice''"
    by (simp add: test_env_def ascii_lower_def ascii_lower_char_def)
  have h: "get_password_hash test_env ''salt'' ''Passw0rd'' = Inr ''salt$Passw0rd''"
    by (simp add: get_password_hash_def test_env_def)
  have e: "email_index store_created ''a@x.com'' = Some ''user-00ff''"
    "username_index store_created ''alice'' = Some ''user-00ff''"
    by (simp_all add: store_created_def create_user_def store0_fields Let_def l h)
  show ?thesis
    using indices_stay_consistent [OF store_created_reachable] store_created_reachable e
    by simp
qed

lemma store_patched_fields:
  "email_index store_patched ''admin@aimini.games'' = Some ''admin-001''"
  "email_index store_patched ''root@aimini.games'' = None"
  "users store_patched ''admin-001'' = Some (admin0\<lparr>email := ''root@aimini.games'', updated_at := 1\<rparr>)"
  by (simp_all add: store_patched_def update_user_def store0_fields Let_def)

text \<open>
  \<open>update_user\<close> sets whatever attribute the patch names and never touches an index: a
  patch of \<open>email\<close> leaves the old address in the index, naming a user whose email is
  now another one, and the new address has no entry.
\<close>

theorem update_user_email_counterexample:
  "init_store test_env 0 ''salt'' = Inr store0
   \<and> store_patched = snd (update_user 1 store0 ''admin-001'' [Set_email ''root@aimini.games''])
   \<and> email_index store_patched ''admin@aimini.games'' = Some ''admin-001''
   \<and> users store_patched ''admin-001'' =
        Some (admin0\<lparr>email := ''root@aimini.games'', updated_at := 1\<rparr>)
   \<and> email_index store_patched ''root@aimini.games'' = None
   \<and> \<not> indices_consistent store_patched"
proof -
  have "\<not> indices_consistent store_patched"
  proof
    assume "indices_consistent store_patched"
    from consistentD1 [OF this store_patched_fields(1)]
    show False by (simp add: store_patched_fields)
  qed
  then show ?thesis
    by (simp add: store_patched_fields init_store_test_env) (simp add: store_patched_def)
qed

subsection \<open>Case of letters in lookups\<close>

text \<open>
  C10, as amended. The lookup by email is an exact match on the stored string; the lookup
  by username lower-cases its argument and consults the index, so a registered handle is
  found under any spelling that agrees with it after lower-casing. For a registered user
  with email \<open>e\<close> and an identifier \<open>e'\<close> that differs from \<open>e\<close> only in the case of letters
  and is not itself a registered email or username: \<open>login\<close> with \<open>e'\<close> fails with status
  401 whatever the password and changes nothing; \<open>request_password_reset\<close> answers with
  the message alone and creates no reset token for every address whose normal form, as
  the request's \<open>EmailStr\<close> field yields it, is \<open>e'\<close>.
\<close>

theorem email_lookup_is_case_sensitive:
  assumes reg: "email_index s e = Some uid" "uid \<noteq> []" "users s uid = Some u"
    and variant: "e' \<noteq> e" "str_lower E e' = str_lower E e"
    and free: "email_index s e' = None" "username_index s (str_lower E e') = None"
    and handle: "username_index s (str_lower E n) = Some hid" "hid \<noteq> []"
      "users s hid = Some hu"
    and norm: "email_str E raw = Some e'"
  shows "get_user_by_email s e = Some (uid, u)
     \<and> get_user_by_email s e' = None
     \<and> get_user_by_username E s n = Some (hid, hu)
     \<and> (\<forall>n'. str_lower E n' = str_lower E n \<longrightarrow> get_user_by_username E s n' = Some (hid, hu))
     \<and> login E now s e' pw =
         (Inl (HTTPException 401 Incorrect_email_username_or_password), s)
     \<and> request_password_reset E now reset s raw =
         (Inr (Json [(''message'', ''If the email exists, a reset link has been sent'')]), s)"
proof -
  have a: "get_user_by_email s e = Some (uid, u)"
    using reg by (simp add: get_user_by_email_def get_user_by_id_def)
  have b: "get_user_by_email s e' = None"
    using free by (simp add: get_user_by_email_def)
  have c: "get_user_by_username E s e' = None"
    using free by (simp add: get_user_by_username_def)
  have d: "find_user E s e' = None"
    by (simp add: find_user_def b c)
  have h: "get_user_by_username E s n = Some (hid, hu)"
    using handle by (simp add: get_user_by_username_def get_user_by_id_def)
  have i: "\<forall>n'. str_lower E n' = str_lower E n \<longrightarrow>
      get_user_by_username E s n' = Some (hid, hu)"
    using handle by (simp add: get_user_by_username_def get_user_by_id_def)
  have l: "login E now s e' pw =
      (Inl (HTTPException 401 Incorrect_email_username_or_password), s)"
    by (rule login_unknown [OF d])
  have r: "request_password_reset E now reset s raw =
      (Inr (Json [(''message'', ''If the email exists, a reset link has been sent'')]), s)"
    by (simp add: request_password_reset_def norm b)
  from a b h i l r show ?thesis by (intro conjI)
qed

theorem email_lookup_is_case_sensitive_witness:
  "email_index store0 ''admin@aimini.games'' = Some ''admin-001''
   \<and> users store0 ''admin-001'' = Some admin0
   \<and> ''Admin@aimini.games'' \<noteq> ''admin@aimini.games''
   \<and> str_lower test_env ''Admin@aimini.games'' = str_lower test_env ''admin@aimini.games''
   \<and> email_str test_env ''Admin@AIMINI.GAMES'' = Some ''Admin@aimini.games''
   \<and> verify_password test_env ''Admin123!'' (hashed_password admin0) = Inr True
   \<and> get_user_by_email store0 ''admin@aimini.games'' = Some (''admin-001'', admin0)
   \<and> get_user_by_email store0 ''Admin@aimini.games'' = None
   \<and> get_user_by_username test_env store0 ''ADMIN'' = Some (''admin-001'', admin0)
   \<and> get_user_by_username test_env store0 ''Admin'' = Some (''admin-001'', admin0)
   \<and> login test_env 0 store0 ''Admin@aimini.games'' ''Admin123!'' =
        (Inl (HTTPException 401 Incorrect_email_username_or_password), store0)
   \<and> request_password_reset test_env 0 ''rtok'' store0 ''Admin@AIMINI.GAMES'' =
        (Inr (Json [(''message'', ''If the email exists, a reset link has been sent'')]), store0)"
proof -
  have l: "str_lower test_env ''Admin@aimini.games'' = str_lower test_env ''admin@aimini.games''"
    "str_lower test_env ''Admin@aimini.games'' = ''admin@aimini.games''"
    "str_lower test_env ''ADMIN'' = ''admin''"
    "str_lower test_env ''Admin'' = str_lower test_env ''ADMIN''"
    by (simp_all add: test_env_def ascii_lower_def ascii_lower_char_def)
  have reg: "email_index store0 ''admin@aimini.games'' = Some ''admin-001''"
    "''admin-001'' \<noteq> []" "users store0 ''admin-001'' = Some admin0"
    by (simp_all add: store0_fields)
  have variant: "''Admin@aimini.games'' \<noteq> ''admin@aimini.games''" by simp
  have free: "email_index store0 ''Admin@aimini.games'' = None"
    "username_index store0 (str_lower test_env ''Admin@aimini.games'') = None"
    by (simp_all add: store0_fields l(2))
  have handle: "username_index store0 (str_lower test_env ''ADMIN'') = Some ''admin-001''"
    by (simp add: store0_fields l(3))
  note cs = email_lookup_is_case_sensitive [OF reg variant l(1) free handle reg(2,3)
      normal_addresses(4), of 0 "''Admin123!''" "''rtok''"]
  from cs have g: "get_user_by_email store0 ''admin@aimini.games'' = Some (''admin-001'', admin0)"
    "get_user_by_email store0 ''Admin@aimini.games'' = None"
    "get_user_by_username test_env store0 ''ADMIN'' = Some (''admin-001'', admin0)"
    "login test_env 0 store0 ''Admin@aimini.games'' ''Admin123!'' =
        (Inl (HTTPException 401 Incorrect_email_username_or_password), store0)"
    "request_password_reset test_env 0 ''rtok'' store0 ''Admin@AIMINI.GAMES'' =
        (Inr (Json [(''message'', ''If the email exists, a reset link has been sent'')]), store0)"
    by blast+
  from cs l(4) have m: "get_user_by_username test_env store0 ''Admin'' =
      Some (''admin-001'', admin0)"
    by blast
  from reg(1,3) variant l(1) normal_addresses(4) test_passwords(2) g(1,2,3) m g(4,5)
  show ?thesis
    by (intro conjI)
qed

text \<open>
  The body of a reset request is validated before the route runs, and the validation of
  the address lower-cases its domain: an address that differs from the administrator's
  only in the case of the domain reaches the lookup as the stored address, and the
  request finds the user and creates a reset token.
\<close>

theorem reset_request_domain_case_counterexample:
  "email_index store0 ''admin@aimini.games'' = Some ''admin-001''
   \<and> ''admin@AIMINI.GAMES'' \<noteq> ''admin@aimini.games''
   \<and> ascii_lower ''admin@AIMINI.GAMES'' = ascii_lower ''admin@aimini.games''
   \<and> request_password_reset test_env 0 ''rtok'' store0 ''admin@AIMINI.GAMES'' =
        (Inr (Json [(''message'', ''If the email exists, a reset link has been sent''),
                    (''reset_token'', ''rtok'')]),
         store0\<lparr>password_reset_tokens :=
           [''rtok'' \<mapsto> \<lparr>user_id = ''admin-001'', expires_at = 3600000000, issued_at = 0\<rparr>]\<rparr>)"
  by (simp add: request_password_reset_def normal_addresses get_user_by_email_def
      get_user_by_id_def create_password_reset_token_def store0_fields hours_def admin0_names
      ascii_lower_def ascii_lower_char_def)

end
